theory Spec2Isabelle
  imports Complex_Main "HOL-Library.AList" "HOL-Library.Char_ord" "HOL-Library.List_Lexorder"
    "HOL-Library.Log_Nat"
begin

section \<open>Data model (server/models.py)\<close>

text \<open>
  Strings are \<open>string\<close>. A Python \<open>dict\<close> whose iteration order is observable (the
  entities of a snapshot, an entity's metadata) is an association list in insertion
  order, read with \<open>map_of\<close> and written with \<open>AList.update\<close> (an existing key keeps its
  place, a new key goes to the end, as in Python). A Python \<open>set\<close> is a HOL set.
  The field \<open>id\<close> of \<open>EntityData\<close> is called \<open>id_field\<close> (\<open>id\<close> is the identity function of
  HOL) and the field \<open>name\<close> of \<open>UserInfo\<close> is called \<open>user_name\<close>.
\<close>

record EntityData =
  id_field :: string
  name :: string
  category :: string
  metadata :: "(string \<times> string) list"

record UserInfo =
  sub :: string
  user_name :: string
  email :: string
  roles :: "string list"
  entitlements :: "(string \<times> string list) list"

text \<open>
  A \<open>datetime\<close> is a whole number of microseconds since the epoch (the resolution of
  Python's \<open>datetime\<close>), so the difference of two of them is the \<open>timedelta\<close> in
  microseconds.
\<close>

record CachedData =
  entities :: "(string \<times> EntityData) list"
  last_refreshed_at :: int
  ttl_seconds :: int

record UserEntitlements =
  user_id :: string
  global_roles :: "string set"
  permitted_categories :: "string set"

text \<open>
  \<open>timedelta.total_seconds()\<close> is the true division of the microseconds by \<open>10^6\<close>,
  a Python \<open>float\<close>: the double nearest to the quotient, a tie going to the even
  significand. A double has a significand of 53 bits, so the quotient is rounded to a
  whole multiple of \<open>2^(e - 52)\<close>, where \<open>2^e\<close> is the largest power of two that is not
  above its absolute value. (The quotients of a \<open>timedelta\<close> are far from the
  subnormal and the overflow range of a double.)
\<close>

definition round_half_even :: "real \<Rightarrow> int" where
  "round_half_even y =
     (let f = \<lfloor>y\<rfloor>; r = y - of_int f
      in if r < 1 / 2 then f else if 1 / 2 < r then f + 1 else if even f then f else f + 1)"

definition pow2 :: "int \<Rightarrow> real" where
  "pow2 k = (if 0 \<le> k then 2 ^ nat k else 1 / 2 ^ nat (- k))"

text \<open>The exponent \<open>e\<close> with \<open>2^e \<le> m / 10^6 < 2^(e + 1)\<close>, for \<open>m > 0\<close> (\<open>10^6\<close> has 20 bits).\<close>

definition binary_exponent :: "int \<Rightarrow> int" where
  "binary_exponent m =
     (let d = bitlen m - 20
      in if pow2 d \<le> real_of_int m / 1000000 then d else d - 1)"

definition total_seconds :: "int \<Rightarrow> real" where
  "total_seconds td =
     (if td = 0 then 0
      else let m = \<bar>td\<bar>; k = 52 - binary_exponent m
           in real_of_int (sgn td * round_half_even (real_of_int m / 1000000 * pow2 k)) / pow2 k)"

text \<open>
  \<open>CachedData.is_stale\<close>; the clock reading \<open>datetime.now(timezone.utc)\<close> is the argument
  \<open>now\<close>. Python compares the float with the integer \<open>ttl_seconds\<close> by their exact values.
\<close>

definition is_stale :: "CachedData \<Rightarrow> int \<Rightarrow> bool" where
  "is_stale self now =
     (let elapsed = total_seconds (now - last_refreshed_at self)
      in elapsed > real_of_int (ttl_seconds self))"

section \<open>Exceptions, the outside world and the server state\<close>

text \<open>
  Every exception the server code raises or lets through is a value of \<open>error\<close>:
  \<open>PermissionError\<close> is the built-in exception that \<open>server/auth.py\<close> raises with a
  message; the other three are what the HTTP client and the validation of a reply raise
  (\<open>response.raise_for_status()\<close>, a transport failure, \<open>model_validate\<close>), and
  \<open>RuntimeError\<close> is what \<open>ctx.get_http_request()\<close> raises outside an HTTP request.
\<close>

datatype error =
    PermissionError string
  | HTTPStatusError nat
  | TransportError string
  | ValidationError string
  | RuntimeError string


text \<open>
  What the code takes from outside the repository is a parameter of the model:
  \<^item> \<open>sha256_hexdigest token\<close> is \<open>hashlib.sha256(token.encode()).hexdigest()\<close>;
  \<^item> \<open>userinfo_response n token\<close> is the outcome of the \<open>n\<close>-th request (counting from 0)
    that the server sends to the identity provider, made with bearer \<open>token\<close>: the
    validated \<open>UserInfo\<close>, or the exception raised by the request, by
    \<open>raise_for_status\<close> or by \<open>UserInfo.model_validate\<close>;
  \<^item> \<open>entities_response n\<close> is the outcome of the \<open>n\<close>-th \<open>GET {base_url}/entities\<close>: the
    validated entities in the order of the reply, or the exception raised;
  \<^item> \<open>repr_tuple\<close>, \<open>repr_set\<close>, \<open>repr_dict\<close> are Python's \<open>repr\<close> of a tuple of strings,
    a set of strings and a \<open>dict[str, str]\<close>, and \<open>isoformat\<close> is \<open>datetime.isoformat\<close>;
  \<^item> \<open>cache_ttl_seconds\<close> is \<open>int(os.environ.get("CACHE_TTL_SECONDS", "300"))\<close> and
    \<open>downstream_api_url\<close> is \<open>os.environ.get("DOWNSTREAM_API_URL", "")\<close>.
  The replies may differ from one request to the next: nothing is assumed about them.
\<close>

record runtime =
  sha256_hexdigest :: "string \<Rightarrow> string"
  userinfo_response :: "nat \<Rightarrow> string \<Rightarrow> error + UserInfo"
  entities_response :: "nat \<Rightarrow> error + EntityData list"
  repr_tuple :: "string list \<Rightarrow> string"
  repr_set :: "string set \<Rightarrow> string"
  repr_dict :: "(string \<times> string) list \<Rightarrow> string"
  isoformat :: "int \<Rightarrow> string"
  cache_ttl_seconds :: int
  downstream_api_url :: string

text \<open>
  The effects of the server on the outside world, in the order in which they happen:
  a sleep of the background task, a request to the identity provider (with its bearer
  token), a request to the downstream source.
\<close>

datatype effect = Sleep int | GetUserinfo string | GetEntities

fun is_GetUserinfo :: "effect \<Rightarrow> bool" where
  "is_GetUserinfo (GetUserinfo t) = True"
| "is_GetUserinfo e = False"

fun is_GetEntities :: "effect \<Rightarrow> bool" where
  "is_GetEntities GetEntities = True"
| "is_GetEntities e = False"

text \<open>A record of the logger: \<open>logger.info\<close>, or \<open>logger.exception\<close> with the exception being handled.\<close>

datatype log_record = Info string | Exception string error

text \<open>
  The state of the server process.
  \<^item> \<open>entitlement_cache\<close> is the module-level dict \<open>_entitlement_cache\<close> of \<open>server/auth.py\<close>.
  \<^item> \<open>heap\<close> holds every \<open>CachedData\<close> object constructed so far; the address of an
    object is its index, and constructing an object appends it.
  \<^item> \<open>cache_holder\<close> is the reference stored in the one-element list
    \<open>cache_holder\<close> (\<open>cache_holder[0]\<close>), an address of the heap.
  \<^item> \<open>http_client\<close> says whether \<open>lifespan_context["http_client"]\<close> is a client (not \<open>None\<close>).
  \<^item> \<open>effects\<close> and \<open>log\<close> are the effects on the world and the log records so far.
  An operation of the server runs on the state from its start to its end; the
  interleaving of coroutines at an \<open>await\<close> is not modelled.
\<close>

record server =
  entitlement_cache :: "string \<rightharpoonup> UserEntitlements"
  heap :: "CachedData list"
  cache_holder :: nat
  http_client :: bool
  effects :: "effect list"
  log :: "log_record list"

definition idp_requests :: "server \<Rightarrow> nat" where
  "idp_requests s = length (filter is_GetUserinfo (effects s))"

definition downstream_requests :: "server \<Rightarrow> nat" where
  "downstream_requests s = length (filter is_GetEntities (effects s))"

text \<open>The snapshot that a reader obtains with \<open>cache_holder[0]\<close>.\<close>

definition current :: "server \<Rightarrow> CachedData" where
  "current s = heap s ! cache_holder s"

section \<open>Entitlement resolution and the role gate (server/auth.py)\<close>

definition verify_token_and_resolve_entitlements ::
  "runtime \<Rightarrow> string \<Rightarrow> server \<Rightarrow> (error + UserEntitlements) \<times> server" where
  "verify_token_and_resolve_entitlements rt token s =
     (let s1 = s\<lparr>effects := effects s @ [GetUserinfo token]\<rparr> in
      case userinfo_response rt (idp_requests s) token of
        Inl e \<Rightarrow> (Inl e, s1)
      | Inr user_info \<Rightarrow>
          (Inr \<lparr>user_id = sub user_info,
                global_roles = set (roles user_info),
                permitted_categories =
                  set (case map_of (entitlements user_info) ''categories'' of
                         None \<Rightarrow> [] | Some cs \<Rightarrow> cs)\<rparr>, s1))"

definition get_entitlements ::
  "runtime \<Rightarrow> string \<Rightarrow> server \<Rightarrow> (error + UserEntitlements) \<times> server" where
  "get_entitlements rt token s =
     (let token_hash = sha256_hexdigest rt token in
      case entitlement_cache s token_hash of
        Some cached \<Rightarrow> (Inr cached, s)
      | None \<Rightarrow>
          (case verify_token_and_resolve_entitlements rt token s of
             (Inl e, s1) \<Rightarrow> (Inl e, s1)
           | (Inr ents, s1) \<Rightarrow>
               (Inr ents, s1\<lparr>entitlement_cache := (entitlement_cache s1)(token_hash \<mapsto> ents)\<rparr>)))"

text \<open>
  \<open>str.lower\<close> on the letters that matter to the prefix test below: the ASCII capitals.
  (Python also lowers non-ASCII capitals, never to an ASCII letter of \<open>bearer\<close>.)
\<close>

definition lower_char :: "char \<Rightarrow> char" where
  "lower_char c =
     (case map_of (zip ''ABCDEFGHIJKLMNOPQRSTUVWXYZ'' ''abcdefghijklmnopqrstuvwxyz'') c of
        Some d \<Rightarrow> d | None \<Rightarrow> c)"

definition lower :: "string \<Rightarrow> string" where
  "lower s = map lower_char s"

definition startswith :: "string \<Rightarrow> string \<Rightarrow> bool" where
  "startswith s p = (take (length p) s = p)"

text \<open>
  The request context. \<open>http_request\<close> is the outcome of \<open>ctx.get_http_request()\<close>: an
  exception, \<open>None\<close>, or a request, of which only the headers are read (header names in
  lower case, as the HTTP layer stores them; \<open>headers.get\<close> returns the first match).
\<close>

record Context =
  http_request :: "error + (string \<times> string) list option"

definition extract_bearer_token :: "Context \<Rightarrow> error + string" where
  "extract_bearer_token ctx =
     (case http_request ctx of
        Inr (Some headers) \<Rightarrow>
          (let auth_header = (case map_of headers ''authorization'' of
                                Some v \<Rightarrow> v | None \<Rightarrow> '''')
           in if startswith (lower auth_header) ''bearer ''
              then Inr (drop 7 auth_header)
              else Inl (PermissionError ''No bearer token found in request''))
      | Inr None \<Rightarrow> Inl (PermissionError ''No bearer token found in request'')
      | Inl e \<Rightarrow> Inl (PermissionError ''No bearer token found in request''))"

definition insufficient_permissions :: "runtime \<Rightarrow> string list \<Rightarrow> string set \<Rightarrow> string" where
  "insufficient_permissions rt required actual =
     ''Insufficient permissions. Required one of: '' @ repr_tuple rt required
       @ '', user has: '' @ repr_set rt actual"

text \<open>
  The decorator \<open>requires_role(*roles)(func)\<close>. The search of \<open>args\<close> and \<open>kwargs\<close> for the
  \<open>Context\<close> gives \<open>ctx\<close> (\<open>None\<close> when there is none); the other arguments of the handler are
  passed through unchanged, so \<open>func\<close> is the handler applied to them.
\<close>

definition requires_role ::
  "runtime \<Rightarrow> string list \<Rightarrow> (Context \<Rightarrow> server \<Rightarrow> (error + 'a) \<times> server)
     \<Rightarrow> Context option \<Rightarrow> server \<Rightarrow> (error + 'a) \<times> server" where
  "requires_role rt required func ctx s =
     (case ctx of
        None \<Rightarrow> (Inl (PermissionError ''No context available for authorization check''), s)
      | Some c \<Rightarrow>
          (case extract_bearer_token c of
             Inl e \<Rightarrow> (Inl e, s)
           | Inr token \<Rightarrow>
               (case get_entitlements rt token s of
                  (Inl e, s1) \<Rightarrow> (Inl e, s1)
                | (Inr ents, s1) \<Rightarrow>
                    if global_roles ents \<inter> set required = {}
                    then (Inl (PermissionError
                                 (insufficient_permissions rt required (global_roles ents))), s1)
                    else func c s1)))"

section \<open>Building and refreshing the snapshot (server/cache.py)\<close>

text \<open>
  \<open>fetch_all_entities\<close>: one request to the downstream source; the dict comprehension
  stores each entity under its id, a later entity with the same id replacing the earlier.
\<close>

definition fetch_all_entities ::
  "runtime \<Rightarrow> server \<Rightarrow> (error + (string \<times> EntityData) list) \<times> server" where
  "fetch_all_entities rt s =
     (let s1 = s\<lparr>effects := effects s @ [GetEntities]\<rparr> in
      case entities_response rt (downstream_requests s) of
        Inl e \<Rightarrow> (Inl e, s1)
      | Inr raw_entities \<Rightarrow>
          (Inr (foldl (\<lambda>d entity. AList.update (id_field entity) entity d) [] raw_entities), s1))"

text \<open>
  \<open>build_cache\<close> constructs a new \<open>CachedData\<close> object and returns the reference to it: the
  object is appended to the heap and the result is its address. \<open>now\<close> is the clock
  reading \<open>datetime.now(timezone.utc)\<close> taken at the construction.
\<close>

definition build_cache ::
  "runtime \<Rightarrow> int \<Rightarrow> int \<Rightarrow> server \<Rightarrow> (error + nat) \<times> server" where
  "build_cache rt now ttl s =
     (case fetch_all_entities rt s of
        (Inl e, s1) \<Rightarrow> (Inl e, s1)
      | (Inr ents, s1) \<Rightarrow>
          (Inr (length (heap s1)),
           s1\<lparr>heap := heap s1 @ [\<lparr>entities = ents, last_refreshed_at = now, ttl_seconds = ttl\<rparr>]\<rparr>))"

text \<open>The body of the \<open>try\<close> in \<open>refresh_loop\<close>: build, swap the reference, log.\<close>

definition refresh_attempt ::
  "runtime \<Rightarrow> int \<Rightarrow> int \<Rightarrow> server \<Rightarrow> (error + unit) \<times> server" where
  "refresh_attempt rt ttl now s =
     (case build_cache rt now ttl s of
        (Inl e, s1) \<Rightarrow> (Inl e, s1)
      | (Inr new_cache, s1) \<Rightarrow>
          (Inr (),
           s1\<lparr>cache_holder := new_cache,
              log := log s1 @ [Info (''Cache refreshed at ''
                         @ isoformat rt (last_refreshed_at (heap s1 ! new_cache)))]\<rparr>))"

text \<open>
  One iteration of the \<open>while True\<close> of \<open>refresh_loop\<close>: sleep, then the \<open>try\<close> with its
  \<open>except Exception\<close> handler. The result \<open>Inl e\<close> would be an exception leaving the
  iteration, and so the background task.
\<close>

definition refresh_iteration ::
  "runtime \<Rightarrow> int \<Rightarrow> int \<Rightarrow> server \<Rightarrow> (error + unit) \<times> server" where
  "refresh_iteration rt ttl now s =
     (case refresh_attempt rt ttl now (s\<lparr>effects := effects s @ [Sleep ttl]\<rparr>) of
        (Inr u, s1) \<Rightarrow> (Inr (), s1)
      | (Inl e, s1) \<Rightarrow>
          (Inr (), s1\<lparr>log := log s1 @ [Exception ''Cache refresh failed; serving stale data'' e]\<rparr>))"

text \<open>
  The loop never ends by itself. \<open>refresh_loop rt ttl ticks\<close> runs its first
  \<open>length ticks\<close> iterations, \<open>ticks\<close> being the clock readings of these iterations.
\<close>

fun refresh_loop ::
  "runtime \<Rightarrow> int \<Rightarrow> int list \<Rightarrow> server \<Rightarrow> (error + unit) \<times> server" where
  "refresh_loop rt ttl [] s = (Inr (), s)"
| "refresh_loop rt ttl (now # ticks) s =
     (case refresh_iteration rt ttl now s of
        (Inl e, s1) \<Rightarrow> (Inl e, s1)
      | (Inr u, s1) \<Rightarrow> refresh_loop rt ttl ticks s1)"

section \<open>The tools (server/tools.py)\<close>

abbreviation apostrophe :: string where
  "apostrophe \<equiv> [CHR 0x27]"

abbreviation newline :: string where
  "newline \<equiv> [CHR 0x0A]"

text \<open>\<open>sep.join(xs)\<close>\<close>

fun join :: "string \<Rightarrow> string list \<Rightarrow> string" where
  "join sep [] = []"
| "join sep [x] = x"
| "join sep (x # y # ys) = x @ sep @ join sep (y # ys)"

text \<open>\<open>str(n)\<close> of a natural number, in decimal.\<close>

fun str_nat :: "nat \<Rightarrow> string" where
  "str_nat n =
     (if n < 10 then [''0123456789'' ! n]
      else str_nat (n div 10) @ [''0123456789'' ! (n mod 10)])"

declare str_nat.simps [simp del]

definition str_int :: "int \<Rightarrow> string" where
  "str_int i = (if i < 0 then ''-'' @ str_nat (nat (- i)) else str_nat (nat i))"

definition str_bool :: "bool \<Rightarrow> string" where
  "str_bool b = (if b then ''True'' else ''False'')"

text \<open>The list comprehension of \<open>list_entities\<close> (Layer 4), over \<open>cache.entities.values()\<close>.\<close>

definition entitled_entities ::
  "CachedData \<Rightarrow> UserEntitlements \<Rightarrow> string option \<Rightarrow> EntityData list" where
  "entitled_entities cache ents cat =
     filter (\<lambda>e. category e \<in> permitted_categories ents
                 \<and> (cat = None \<or> Some (category e) = cat))
            (map snd (entities cache))"

definition entity_line :: "EntityData \<Rightarrow> string" where
  "entity_line e =
     ''- '' @ name e @ '' (id='' @ id_field e @ '', category='' @ category e @ '')''"

definition render_entities :: "CachedData \<Rightarrow> int \<Rightarrow> EntityData list \<Rightarrow> string" where
  "render_entities cache now es =
     (if es = [] then ''No entities found matching your entitlements and filter.''
      else let result = join newline (map entity_line es)
           in if is_stale cache now
              then result @ newline @ newline @ ''[Warning: cached data may be stale]''
              else result)"

text \<open>The undecorated handler of \<open>list_entities\<close>; \<open>cat\<close> is its argument \<open>category\<close>.\<close>

definition list_entities_func ::
  "runtime \<Rightarrow> int \<Rightarrow> string option \<Rightarrow> Context \<Rightarrow> server \<Rightarrow> (error + string) \<times> server" where
  "list_entities_func rt now cat ctx s =
     (let cache = current s in
      case extract_bearer_token ctx of
        Inl e \<Rightarrow> (Inl e, s)
      | Inr token \<Rightarrow>
          (case get_entitlements rt token s of
             (Inl e, s1) \<Rightarrow> (Inl e, s1)
           | (Inr ents, s1) \<Rightarrow>
               (Inr (render_entities cache now (entitled_entities cache ents cat)), s1)))"

definition not_found :: "string \<Rightarrow> string" where
  "not_found entity_id = ''Entity '' @ apostrophe @ entity_id @ apostrophe @ '' not found.''"

definition access_denied :: "EntityData \<Rightarrow> string" where
  "access_denied entity =
     ''Access denied: you do not have entitlements for category ''
       @ apostrophe @ category entity @ apostrophe @ ''.''"

definition entity_body :: "runtime \<Rightarrow> EntityData \<Rightarrow> string" where
  "entity_body rt entity =
     ''Name: '' @ name entity @ newline
       @ ''ID: '' @ id_field entity @ newline
       @ ''Category: '' @ category entity @ newline
       @ ''Metadata: '' @ repr_dict rt (metadata entity)"

text \<open>The undecorated handler of \<open>get_entity\<close>.\<close>

definition get_entity_func ::
  "runtime \<Rightarrow> string \<Rightarrow> Context \<Rightarrow> server \<Rightarrow> (error + string) \<times> server" where
  "get_entity_func rt entity_id ctx s =
     (let cache = current s in
      case map_of (entities cache) entity_id of
        None \<Rightarrow> (Inr (not_found entity_id), s)
      | Some entity \<Rightarrow>
          (case extract_bearer_token ctx of
             Inl e \<Rightarrow> (Inl e, s)
           | Inr token \<Rightarrow>
               (case get_entitlements rt token s of
                  (Inl e, s1) \<Rightarrow> (Inl e, s1)
                | (Inr ents, s1) \<Rightarrow>
                    if category entity \<notin> permitted_categories ents
                    then (Inr (access_denied entity), s1)
                    else (Inr (entity_body rt entity), s1))))"

text \<open>
  The undecorated handler of \<open>refresh_cache\<close>. The literal of its first message has,
  between \<open>configured\<close> and \<open>cache\<close>, the three characters U+00E2, U+20AC and U+201D,
  written here as their UTF-8 bytes.
\<close>

definition refresh_cache_func ::
  "runtime \<Rightarrow> int \<Rightarrow> Context \<Rightarrow> server \<Rightarrow> (error + string) \<times> server" where
  "refresh_cache_func rt now ctx s =
     (if \<not> http_client s
      then (Inr (''No downstream API configured '' @ [CHR 0xC3, CHR 0xA2, CHR 0xE2, CHR 0x82, CHR 0xAC, CHR 0xE2, CHR 0x80, CHR 0x9D]
                   @ '' cache refresh unavailable.''), s)
      else let ttl = cache_ttl_seconds rt in
           case build_cache rt now ttl s of
             (Inl e, s1) \<Rightarrow> (Inl e, s1)
           | (Inr new_cache, s1) \<Rightarrow>
               (Inr (''Cache refreshed. ''
                       @ str_nat (length (entities (heap s1 ! new_cache)))
                       @ '' entities loaded.''),
                s1\<lparr>cache_holder := new_cache\<rparr>))"

text \<open>The three tools as registered: each handler behind its \<open>requires_role\<close> decorator.\<close>

definition list_entities ::
  "runtime \<Rightarrow> int \<Rightarrow> string option \<Rightarrow> Context option \<Rightarrow> server \<Rightarrow> (error + string) \<times> server" where
  "list_entities rt now cat = requires_role rt [''reader'', ''admin''] (list_entities_func rt now cat)"

definition get_entity ::
  "runtime \<Rightarrow> string \<Rightarrow> Context option \<Rightarrow> server \<Rightarrow> (error + string) \<times> server" where
  "get_entity rt entity_id = requires_role rt [''reader'', ''admin''] (get_entity_func rt entity_id)"

definition refresh_cache ::
  "runtime \<Rightarrow> int \<Rightarrow> Context option \<Rightarrow> server \<Rightarrow> (error + string) \<times> server" where
  "refresh_cache rt now = requires_role rt [''admin''] (refresh_cache_func rt now)"

section \<open>The status resources (server/resources.py)\<close>

definition cache_summary :: "runtime \<Rightarrow> int \<Rightarrow> server \<Rightarrow> string" where
  "cache_summary rt now s =
     (let cache = current s;
          categories = sort (remdups (map (\<lambda>e. category e) (map snd (entities cache))))
      in ''Total entities: '' @ str_nat (length (entities cache)) @ newline
           @ ''Categories: '' @ (if categories \<noteq> [] then join '', '' categories else ''(none)'')
           @ newline
           @ ''Last refreshed: '' @ isoformat rt (last_refreshed_at cache) @ newline
           @ ''TTL: '' @ str_int (ttl_seconds cache) @ ''s'' @ newline
           @ ''Stale: '' @ str_bool (is_stale cache now))"

definition cache_health :: "runtime \<Rightarrow> int \<Rightarrow> server \<Rightarrow> string" where
  "cache_health rt now s =
     (let cache = current s;
          status = (if \<not> is_stale cache now then ''healthy'' else ''stale'')
      in ''status: '' @ status @ newline
           @ ''last_refresh: '' @ isoformat rt (last_refreshed_at cache))"

section \<open>Start of the process (server/lifespan.py)\<close>

text \<open>The state before \<open>app_lifespan\<close> runs: nothing cached, no snapshot constructed.\<close>

definition process_start :: server where
  "process_start =
     \<lparr>entitlement_cache = Map.empty, heap = [], cache_holder = 0, http_client = False,
      effects = [], log = []\<rparr>"

text \<open>
  \<open>app_lifespan\<close> up to its \<open>yield\<close>: the state in which the server starts to serve, or
  the exception of the eager fetch, which ends the start.
\<close>

definition app_lifespan :: "runtime \<Rightarrow> int \<Rightarrow> error + server" where
  "app_lifespan rt now =
     (let base_url = downstream_api_url rt; ttl = cache_ttl_seconds rt in
      if base_url = []
      then Inr (process_start
                  \<lparr>heap := [\<lparr>entities = [], last_refreshed_at = now, ttl_seconds = ttl\<rparr>],
                   cache_holder := 0, http_client := False\<rparr>)
      else case build_cache rt now ttl (process_start\<lparr>http_client := True\<rparr>) of
             (Inl e, s1) \<Rightarrow> Inl e
           | (Inr initial_cache, s1) \<Rightarrow> Inr (s1\<lparr>cache_holder := initial_cache\<rparr>))"

section \<open>The operations of a running server\<close>

text \<open>
  What can happen to the state of a running server: a call of one of the three tools, a
  read of one of the two resources, an iteration of the background refresh.
\<close>

datatype operation =
    ListEntities "string option" "Context option"
  | GetEntity string "Context option"
  | RefreshCache "Context option"
  | CacheSummary
  | CacheHealth
  | RefreshTick

fun perform :: "runtime \<Rightarrow> int \<times> operation \<Rightarrow> server \<Rightarrow> server" where
  "perform rt (now, ListEntities cat ctx) s = snd (list_entities rt now cat ctx s)"
| "perform rt (now, GetEntity entity_id ctx) s = snd (get_entity rt entity_id ctx s)"
| "perform rt (now, RefreshCache ctx) s = snd (refresh_cache rt now ctx s)"
| "perform rt (now, CacheSummary) s = s"
| "perform rt (now, CacheHealth) s = s"
| "perform rt (now, RefreshTick) s = snd (refresh_iteration rt (cache_ttl_seconds rt) now s)"

fun run :: "runtime \<Rightarrow> (int \<times> operation) list \<Rightarrow> server \<Rightarrow> server" where
  "run rt [] s = s"
| "run rt (op # ops) s = run rt ops (perform rt op s)"

section \<open>A concrete scenario\<close>

text \<open>
  The scenario of the specification, used to evaluate the model: the downstream source
  answers its first request with an \<open>ops\<close> entity and a \<open>finance\<close> entity, is
  unreachable at the second request and answers with a third entity from then on; the
  identity provider knows a reader entitled to \<open>ops\<close>, an administrator and a user
  without roles, and rejects every other token. For Python's \<open>repr\<close> the scenario has
  stand-ins that agree with Python on strings without quotes, backslashes and
  non-printable characters (a set is printed in sorted order, where Python's order is
  arbitrary); for \<open>isoformat\<close> it prints the count of microseconds, the calendar not
  being modelled. No property below depends on these stand-ins.
\<close>

definition quoted :: "string \<Rightarrow> string" where
  "quoted x = apostrophe @ x @ apostrophe"

definition e1 :: EntityData where
  "e1 = \<lparr>id_field = ''e1'', name = ''Pump'', category = ''ops'', metadata = []\<rparr>"

definition e2 :: EntityData where
  "e2 = \<lparr>id_field = ''e2'', name = ''Ledger'', category = ''finance'', metadata = []\<rparr>"

definition e3 :: EntityData where
  "e3 = \<lparr>id_field = ''e3'', name = ''Valve'', category = ''ops'', metadata = []\<rparr>"

definition scenario :: runtime where
  "scenario =
     \<lparr>sha256_hexdigest = (\<lambda>token. ''sha256:'' @ token),
      userinfo_response = (\<lambda>n token.
         if token = ''reader-token''
         then Inr \<lparr>sub = ''u1'', user_name = ''Ann'', email = ''ann@example.org'',
                   roles = [''reader''], entitlements = [(''categories'', [''ops''])]\<rparr>
         else if token = ''admin-token''
         then Inr \<lparr>sub = ''u2'', user_name = ''Bo'', email = ''bo@example.org'',
                   roles = [''admin''], entitlements = [(''categories'', [''ops'', ''finance''])]\<rparr>
         else if token = ''guest-token''
         then Inr \<lparr>sub = ''u3'', user_name = ''Cy'', email = ''cy@example.org'',
                   roles = [], entitlements = []\<rparr>
         else Inl (HTTPStatusError 401)),
      entities_response = (\<lambda>n.
         if n = 0 then Inr [e1, e2]
         else if n = 1 then Inl (TransportError ''unreachable'')
         else Inr [e1, e2, e3]),
      repr_tuple = (\<lambda>xs. case xs of
                        [x] \<Rightarrow> ''('' @ quoted x @ '',)''
                      | _ \<Rightarrow> ''('' @ join '', '' (map quoted xs) @ '')''),
      repr_set = (\<lambda>S. if S = {} then ''set()''
                       else ''{'' @ join '', '' (map quoted (sorted_list_of_set S)) @ ''}''),
      repr_dict = (\<lambda>d. ''{'' @ join '', '' (map (\<lambda>(k, v). quoted k @ '': '' @ quoted v) d) @ ''}''),
      isoformat = str_int,
      cache_ttl_seconds = 300,
      downstream_api_url = ''http://downstream''\<rparr>"

definition bearer :: "string \<Rightarrow> Context" where
  "bearer token = \<lparr>http_request = Inr (Some [(''authorization'', ''Bearer '' @ token)])\<rparr>"

text \<open>The state in which the server of the scenario starts to serve, at clock reading 0.\<close>

definition serving :: server where
  "serving =
     \<lparr>entitlement_cache = Map.empty,
      heap = [\<lparr>entities = [(''e1'', e1), (''e2'', e2)], last_refreshed_at = 0, ttl_seconds = 300\<rparr>],
      cache_holder = 0, http_client = True, effects = [GetEntities], log = []\<rparr>"

text \<open>The same server after a background refresh at clock reading 300 s that found the downstream unreachable.\<close>

definition after_outage :: server where
  "after_outage =
     serving\<lparr>effects := [GetEntities, Sleep 300, GetEntities],
             log := [Exception ''Cache refresh failed; serving stale data''
                       (TransportError ''unreachable'')]\<rparr>"

text \<open>The two profiles that the identity provider of the scenario resolves to.\<close>

definition reader :: UserEntitlements where
  "reader = \<lparr>user_id = ''u1'', global_roles = {''reader''}, permitted_categories = {''ops''}\<rparr>"

definition admin :: UserEntitlements where
  "admin = \<lparr>user_id = ''u2'', global_roles = {''admin''},
             permitted_categories = {''ops'', ''finance''}\<rparr>"

section \<open>Auxiliary facts\<close>

subsection \<open>Rounding to a double\<close>

lemma round_half_even_near: "\<bar>real_of_int (round_half_even y) - y\<bar> \<le> 1 / 2"
  unfolding round_half_even_def Let_def by (auto; linarith)

lemma round_half_even_le:
  assumes "y \<le> real_of_int n"
  shows "round_half_even y \<le> n"
proof -
  from assms have f: "\<lfloor>y\<rfloor> \<le> n" by (simp add: floor_le_iff)
  show ?thesis
  proof (cases "y = real_of_int \<lfloor>y\<rfloor>")
    case True
    then have "round_half_even y = \<lfloor>y\<rfloor>" by (simp add: round_half_even_def Let_def)
    with f show ?thesis by simp
  next
    case False
    then have "real_of_int \<lfloor>y\<rfloor> < y" using of_int_floor_le [of y] by linarith
    with assms have "real_of_int \<lfloor>y\<rfloor> < real_of_int n" by linarith
    then have "\<lfloor>y\<rfloor> + 1 \<le> n" by simp
    moreover have "round_half_even y \<le> \<lfloor>y\<rfloor> + 1"
      by (simp add: round_half_even_def Let_def)
    ultimately show ?thesis by linarith
  qed
qed

lemma round_half_even_ge:
  assumes "real_of_int n \<le> y"
  shows "n \<le> round_half_even y"
proof -
  from assms have "n \<le> \<lfloor>y\<rfloor>" by (simp add: le_floor_iff)
  moreover have "\<lfloor>y\<rfloor> \<le> round_half_even y"
    by (simp add: round_half_even_def Let_def)
  ultimately show ?thesis by linarith
qed

lemma pow2_nonneg: "0 \<le> k \<Longrightarrow> pow2 k = 2 ^ nat k"
  by (simp add: pow2_def)

lemma binary_exponent_le:
  assumes "0 < m" and "m < 2 ^ 34 * 1000000"
  shows "binary_exponent m \<le> 33"
proof -
  from bitlen_bounds [OF assms(1)] have "(2::int) ^ nat (bitlen m - 1) \<le> m" by simp
  also from assms(2) have "m < (2::int) ^ 54" by simp
  finally have "(2::int) ^ nat (bitlen m - 1) < 2 ^ 54" .
  then have "nat (bitlen m - 1) < 54"
    by (rule power_less_imp_less_exp [rotated]) simp
  then have d: "bitlen m - 20 \<le> 34" by linarith
  show ?thesis
  proof (cases "bitlen m - 20 = 34")
    case True
    from assms(2) have "real_of_int m < 2 ^ 34 * 1000000"
      by (metis of_int_less_iff of_int_numeral of_int_power of_int_mult)
    then have "\<not> pow2 34 \<le> real_of_int m / 1000000"
      by (simp add: pow2_def field_simps)
    with True show ?thesis by (simp add: binary_exponent_def Let_def)
  next
    case False
    with d have "bitlen m - 20 \<le> 33" by linarith
    then show ?thesis by (simp add: binary_exponent_def Let_def)
  qed
qed


lemma rounded_quotient_compare:
  fixes m N :: int
  assumes "0 < m" and "m < 2 ^ 34 * 1000000"
  defines "k \<equiv> 52 - binary_exponent m"
  defines "q \<equiv> real_of_int (round_half_even (real_of_int m / 1000000 * pow2 k)) / pow2 k"
  shows "real_of_int N < q \<longleftrightarrow> N * 1000000 < m"
    and "q < real_of_int N \<longleftrightarrow> m < N * 1000000"
proof -
  from binary_exponent_le [OF assms(1,2)] have k: "19 \<le> k" by (simp add: k_def)
  define P :: real where "P = 2 ^ nat k"
  from k have P: "pow2 k = P" by (simp add: pow2_def P_def)
  have "(2::real) ^ 19 \<le> 2 ^ nat k"
    by (rule power_increasing) (use k in auto)
  then have big: "524288 \<le> P" by (simp add: P_def)
  then have pos: "0 < P" by linarith
  define y where "y = real_of_int m / 1000000 * P"
  define R where "R = real_of_int (round_half_even y)"
  have q: "q = R / P" by (simp add: q_def P R_def y_def)
  have near: "\<bar>R - y\<bar> \<le> 1 / 2" unfolding R_def by (rule round_half_even_near)
  have NP: "real_of_int N * P = real_of_int (N * 2 ^ nat k)" by (simp add: P_def)
  have step: "1 / 2 < P / 1000000" using big by simp
  show "real_of_int N < q \<longleftrightarrow> N * 1000000 < m"
  proof
    assume "N * 1000000 < m"
    then have "N * 1000000 + 1 \<le> m" by linarith
    then have "real_of_int (N * 1000000 + 1) \<le> real_of_int m" by (rule of_int_le_iff [THEN iffD2])
    then have "real_of_int N + 1 / 1000000 \<le> real_of_int m / 1000000" by simp
    then have "(real_of_int N + 1 / 1000000) * P \<le> real_of_int m / 1000000 * P"
      using pos by (intro mult_right_mono) simp_all
    then have "real_of_int N * P + P / 1000000 \<le> y" by (simp add: y_def algebra_simps)
    with near step have "real_of_int N * P < R" by linarith
    with pos show "real_of_int N < q" by (simp add: q pos_less_divide_eq)
  next
    assume lt: "real_of_int N < q"
    show "N * 1000000 < m"
    proof (rule ccontr)
      assume "\<not> N * 1000000 < m"
      then have "m \<le> N * 1000000" by linarith
      then have "real_of_int m \<le> real_of_int (N * 1000000)" by (rule of_int_le_iff [THEN iffD2])
      then have "real_of_int m / 1000000 \<le> real_of_int N" by simp
      then have "real_of_int m / 1000000 * P \<le> real_of_int N * P"
        using pos by (intro mult_right_mono) simp_all
      then have "y \<le> real_of_int (N * 2 ^ nat k)" by (simp only: y_def NP)
      then have "round_half_even y \<le> N * 2 ^ nat k" by (rule round_half_even_le)
      then have "R \<le> real_of_int (N * 2 ^ nat k)" unfolding R_def by (rule of_int_le_iff [THEN iffD2])
      then have "R \<le> real_of_int N * P" by (simp only: NP)
      with pos have "q \<le> real_of_int N" by (simp add: q pos_divide_le_eq)
      with lt show False by linarith
    qed
  qed
  show "q < real_of_int N \<longleftrightarrow> m < N * 1000000"
  proof
    assume "m < N * 1000000"
    then have "m + 1 \<le> N * 1000000" by linarith
    then have "real_of_int (m + 1) \<le> real_of_int (N * 1000000)" by (rule of_int_le_iff [THEN iffD2])
    then have "real_of_int m / 1000000 \<le> real_of_int N - 1 / 1000000" by simp
    then have "real_of_int m / 1000000 * P \<le> (real_of_int N - 1 / 1000000) * P"
      using pos by (intro mult_right_mono) simp_all
    then have "y \<le> real_of_int N * P - P / 1000000" by (simp add: y_def algebra_simps)
    with near step have "R < real_of_int N * P" by linarith
    with pos show "q < real_of_int N" by (simp add: q pos_divide_less_eq)
  next
    assume lt: "q < real_of_int N"
    show "m < N * 1000000"
    proof (rule ccontr)
      assume "\<not> m < N * 1000000"
      then have "N * 1000000 \<le> m" by linarith
      then have "real_of_int (N * 1000000) \<le> real_of_int m" by (rule of_int_le_iff [THEN iffD2])
      then have "real_of_int N \<le> real_of_int m / 1000000" by simp
      then have "real_of_int N * P \<le> real_of_int m / 1000000 * P"
        using pos by (intro mult_right_mono) simp_all
      then have "real_of_int (N * 2 ^ nat k) \<le> y" by (simp only: y_def NP)
      then have "N * 2 ^ nat k \<le> round_half_even y" by (rule round_half_even_ge)
      then have "real_of_int (N * 2 ^ nat k) \<le> R" unfolding R_def by (rule of_int_le_iff [THEN iffD2])
      then have "real_of_int N * P \<le> R" by (simp only: NP)
      with pos have "real_of_int N \<le> q" by (simp add: q pos_le_divide_eq)
      with lt show False by linarith
    qed
  qed
qed

lemma total_seconds_gt_iff:
  assumes "\<bar>td\<bar> < 2 ^ 34 * 1000000"
  shows "real_of_int n < total_seconds td \<longleftrightarrow> n * 1000000 < td"
proof -
  consider "td = 0" | "0 < td" | "td < 0" by linarith
  then show ?thesis
  proof cases
    case 1
    then show ?thesis by (simp add: total_seconds_def)
  next
    case 2
    with assms have b: "td < 2 ^ 34 * 1000000" by simp
    from 2 have "total_seconds td
        = real_of_int (round_half_even (real_of_int td / 1000000 * pow2 (52 - binary_exponent td)))
            / pow2 (52 - binary_exponent td)"
      by (simp add: total_seconds_def Let_def)
    with rounded_quotient_compare(1) [OF 2 b, of n] show ?thesis by simp
  next
    case 3
    then have p: "0 < - td" by simp
    from 3 assms have b: "- td < 2 ^ 34 * 1000000" by simp
    define Q where "Q = real_of_int (round_half_even
        (real_of_int (- td) / 1000000 * pow2 (52 - binary_exponent (- td))))
          / pow2 (52 - binary_exponent (- td))"
    from 3 have ts: "total_seconds td = - Q"
      by (simp add: total_seconds_def Let_def Q_def)
    from rounded_quotient_compare(2) [OF p b, of "- n"]
    have "Q < real_of_int (- n) \<longleftrightarrow> - td < - n * 1000000"
      unfolding Q_def .
    moreover have "real_of_int n < - Q \<longleftrightarrow> Q < real_of_int (- n)" by auto
    moreover have "- td < - n * 1000000 \<longleftrightarrow> n * 1000000 < td" by linarith
    ultimately show ?thesis unfolding ts by blast
  qed
qed

lemma is_stale_bounded:
  assumes "\<bar>t - last_refreshed_at c\<bar> < 2 ^ 34 * 1000000"
  shows "is_stale c t \<longleftrightarrow> ttl_seconds c * 1000000 < t - last_refreshed_at c"
  using total_seconds_gt_iff [OF assms, of "ttl_seconds c"]
  by (simp add: is_stale_def Let_def)

subsection \<open>The text of a list\<close>

lemma join_concat: "join sep (x # xs) = x @ concat (map (\<lambda>y. sep @ y) xs)"
  by (induction xs arbitrary: x) simp_all

lemma render_entities_eq:
  "render_entities cache now es =
     (case es of
        [] \<Rightarrow> ''No entities found matching your entitlements and filter.''
      | e # es' \<Rightarrow>
          entity_line e @ concat (map (\<lambda>e. newline @ entity_line e) es')
          @ (if is_stale cache now
             then newline @ newline @ ''[Warning: cached data may be stale]'' else []))"
  by (cases es) (simp_all add: render_entities_def Let_def join_concat comp_def)

subsection \<open>The entitlement resolver and \<open>build_cache\<close>\<close>

lemma verify_frame:
  "verify_token_and_resolve_entitlements rt token s = (r, s1) \<Longrightarrow>
     s1 = s\<lparr>effects := effects s @ [GetUserinfo token]\<rparr>"
  by (auto simp add: verify_token_and_resolve_entitlements_def Let_def split: sum.splits)

lemma verify_failure:
  "userinfo_response rt (idp_requests s) token = Inl e \<Longrightarrow>
     verify_token_and_resolve_entitlements rt token s
       = (Inl e, s\<lparr>effects := effects s @ [GetUserinfo token]\<rparr>)"
  by (simp add: verify_token_and_resolve_entitlements_def Let_def)

lemma get_entitlements_hit:
  "entitlement_cache s (sha256_hexdigest rt token) = Some p \<Longrightarrow>
     get_entitlements rt token s = (Inr p, s)"
  by (simp add: get_entitlements_def)

lemma get_entitlements_cached:
  "get_entitlements rt token s = (Inr p, s1) \<Longrightarrow>
     entitlement_cache s1 (sha256_hexdigest rt token) = Some p"
  by (auto simp add: get_entitlements_def Let_def split: option.splits sum.splits prod.splits)

lemma get_entitlements_again:
  "get_entitlements rt token s = (Inr p, s1) \<Longrightarrow> get_entitlements rt token s1 = (Inr p, s1)"
  by (rule get_entitlements_hit) (rule get_entitlements_cached)

lemma get_entitlements_frame:
  assumes "get_entitlements rt token s = (r, s1)"
  shows "heap s1 = heap s" and "cache_holder s1 = cache_holder s"
    and "http_client s1 = http_client s" and "log s1 = log s"
    and "effects s1 = effects s \<or> effects s1 = effects s @ [GetUserinfo token]"
  using assms
  by (auto simp add: get_entitlements_def Let_def
      split: option.splits sum.splits prod.splits dest!: verify_frame)

lemma get_entitlements_downstream:
  "get_entitlements rt token s = (r, s1) \<Longrightarrow> downstream_requests s1 = downstream_requests s"
  using get_entitlements_frame(5) [of rt token s r s1]
  by (auto simp add: downstream_requests_def)

lemma get_entitlements_current:
  "get_entitlements rt token s = (r, s1) \<Longrightarrow> current s1 = current s"
  by (simp add: current_def get_entitlements_frame)

lemma build_cache_eq:
  "build_cache rt now ttl s =
     (case entities_response rt (downstream_requests s) of
        Inl e \<Rightarrow> (Inl e, s\<lparr>effects := effects s @ [GetEntities]\<rparr>)
      | Inr raw \<Rightarrow>
          (Inr (length (heap s)),
           s\<lparr>effects := effects s @ [GetEntities],
             heap := heap s @
               [\<lparr>entities = foldl (\<lambda>d entity. AList.update (id_field entity) entity d) [] raw,
                 last_refreshed_at = now, ttl_seconds = ttl\<rparr>]\<rparr>))"
  by (simp add: build_cache_def fetch_all_entities_def Let_def split: sum.splits)

subsection \<open>The tools behind the role gate\<close>

lemma list_entities_authorized:
  assumes "extract_bearer_token ctx = Inr token"
    and "get_entitlements rt token s = (Inr ents, s1)"
    and "global_roles ents \<inter> {''reader'', ''admin''} \<noteq> {}"
  shows "list_entities rt now cat (Some ctx) s =
           (Inr (render_entities (current s) now (entitled_entities (current s) ents cat)), s1)"
proof -
  from assms(2) have "get_entitlements rt token s1 = (Inr ents, s1)"
    and "current s1 = current s"
    by (rule get_entitlements_again, rule get_entitlements_current)
  with assms show ?thesis
    by (simp add: list_entities_def requires_role_def list_entities_func_def Let_def)
qed

lemma get_entity_authorized:
  assumes "extract_bearer_token ctx = Inr token"
    and "get_entitlements rt token s = (Inr ents, s1)"
    and "global_roles ents \<inter> {''reader'', ''admin''} \<noteq> {}"
  shows "get_entity rt entity_id (Some ctx) s =
           (case map_of (entities (current s)) entity_id of
              None \<Rightarrow> (Inr (not_found entity_id), s1)
            | Some entity \<Rightarrow>
                if category entity \<notin> permitted_categories ents
                then (Inr (access_denied entity), s1)
                else (Inr (entity_body rt entity), s1))"
proof -
  from assms(2) have "get_entitlements rt token s1 = (Inr ents, s1)"
    and "current s1 = current s"
    by (rule get_entitlements_again, rule get_entitlements_current)
  with assms show ?thesis
    by (simp add: get_entity_def requires_role_def get_entity_func_def Let_def split: option.splits)
qed

lemma refresh_cache_authorized:
  assumes "extract_bearer_token ctx = Inr token"
    and "get_entitlements rt token s = (Inr ents, s1)"
    and "''admin'' \<in> global_roles ents"
    and "http_client s"
  shows "refresh_cache rt now (Some ctx) s =
     (case entities_response rt (downstream_requests s) of
        Inl e \<Rightarrow> (Inl e, s1\<lparr>effects := effects s1 @ [GetEntities]\<rparr>)
      | Inr raw \<Rightarrow>
          (Inr (''Cache refreshed. '' @ str_nat (length
                  (foldl (\<lambda>d entity. AList.update (id_field entity) entity d) [] raw))
                  @ '' entities loaded.''),
           s1\<lparr>effects := effects s1 @ [GetEntities],
              heap := heap s @
                [\<lparr>entities = foldl (\<lambda>d entity. AList.update (id_field entity) entity d) [] raw,
                  last_refreshed_at = now, ttl_seconds = cache_ttl_seconds rt\<rparr>],
              cache_holder := length (heap s)\<rparr>))"
proof -
  from assms(2) have fr: "heap s1 = heap s" "http_client s1 = http_client s"
    "downstream_requests s1 = downstream_requests s"
    by (rule get_entitlements_frame, rule get_entitlements_frame, rule get_entitlements_downstream)
  with assms show ?thesis
    by (simp add: refresh_cache_def requires_role_def refresh_cache_func_def build_cache_eq
        Let_def split: sum.splits)
qed

subsection \<open>The background refresh\<close>

lemma refresh_iteration_eq:
  "refresh_iteration rt ttl now s =
     (case entities_response rt (downstream_requests s) of
        Inl e \<Rightarrow>
          (Inr (), s\<lparr>effects := effects s @ [Sleep ttl, GetEntities],
                      log := log s @ [Exception ''Cache refresh failed; serving stale data'' e]\<rparr>)
      | Inr raw \<Rightarrow>
          (Inr (), s\<lparr>effects := effects s @ [Sleep ttl, GetEntities],
                      heap := heap s @
                        [\<lparr>entities = foldl (\<lambda>d entity. AList.update (id_field entity) entity d) [] raw,
                          last_refreshed_at = now, ttl_seconds = ttl\<rparr>],
                      cache_holder := length (heap s),
                      log := log s @ [Info (''Cache refreshed at '' @ isoformat rt now)]\<rparr>))"
  by (simp add: refresh_iteration_def refresh_attempt_def build_cache_eq downstream_requests_def
      split: sum.splits)

lemma refresh_iteration_returns: "fst (refresh_iteration rt ttl now s) = Inr ()"
  by (simp add: refresh_iteration_eq split: sum.splits)

lemma refresh_iteration_effects:
  "effects (snd (refresh_iteration rt ttl now s)) = effects s @ [Sleep ttl, GetEntities]"
  by (simp add: refresh_iteration_eq split: sum.splits)

lemma refresh_loop_returns: "fst (refresh_loop rt ttl ticks s) = Inr ()"
proof (induction ticks arbitrary: s)
  case Nil
  show ?case by simp
next
  case (Cons now ticks)
  obtain u s1 where it: "refresh_iteration rt ttl now s = (Inr u, s1)"
    using refresh_iteration_returns [of rt ttl now s] by (metis prod.collapse)
  with Cons.IH [of s1] show ?case by simp
qed

lemma refresh_loop_effects:
  "effects (snd (refresh_loop rt ttl ticks s))
     = effects s @ concat (map (\<lambda>now. [Sleep ttl, GetEntities]) ticks)"
proof (induction ticks arbitrary: s)
  case Nil
  show ?case by simp
next
  case (Cons now ticks)
  obtain u s1 where it: "refresh_iteration rt ttl now s = (Inr u, s1)"
    using refresh_iteration_returns [of rt ttl now s] by (metis prod.collapse)
  from it have "effects s1 = effects s @ [Sleep ttl, GetEntities]"
    using refresh_iteration_effects [of rt ttl now s] by simp
  with it Cons.IH [of s1] show ?case by simp
qed

subsection \<open>The holder and the heap\<close>

lemma requires_role_snapshots:
  obtains (denied) "heap (snd (requires_role rt required func ctx s)) = heap s"
      and "cache_holder (snd (requires_role rt required func ctx s)) = cache_holder s"
  | (ran) c s1 where "heap s1 = heap s" and "cache_holder s1 = cache_holder s"
      and "downstream_requests s1 = downstream_requests s"
      and "requires_role rt required func ctx s = func c s1"
proof (cases ctx)
  case None
  then show ?thesis by (intro denied) (simp_all add: requires_role_def)
next
  case (Some c)
  show ?thesis
  proof (cases "extract_bearer_token c")
    case (Inl e)
    with Some show ?thesis by (intro denied) (simp_all add: requires_role_def)
  next
    case (Inr token)
    obtain r s1 where g: "get_entitlements rt token s = (r, s1)"
      by (cases "get_entitlements rt token s")
    note fr = get_entitlements_frame(1,2) [OF g] get_entitlements_downstream [OF g]
    show ?thesis
    proof (cases r)
      case (Inl e)
      with Some Inr g fr show ?thesis
        by (intro denied) (simp_all add: requires_role_def)
    next
      case ents: (Inr ents)
      show ?thesis
      proof (cases "global_roles ents \<inter> set required = {}")
        case True
        with Some Inr g fr ents show ?thesis
          by (intro denied) (simp_all add: requires_role_def)
      next
        case False
        with Some Inr g ents
        have "requires_role rt required func ctx s = func c s1"
          by (simp add: requires_role_def)
        with fr show ?thesis by (intro ran)
      qed
    qed
  qed
qed

lemma list_entities_func_snapshots:
  "heap (snd (list_entities_func rt now cat c s)) = heap s
   \<and> cache_holder (snd (list_entities_func rt now cat c s)) = cache_holder s"
proof (cases "extract_bearer_token c")
  case (Inl e)
  then show ?thesis by (simp add: list_entities_func_def)
next
  case (Inr token)
  obtain r s1 where g: "get_entitlements rt token s = (r, s1)"
    by (cases "get_entitlements rt token s")
  with Inr get_entitlements_frame(1,2) [OF g] show ?thesis
    by (simp add: list_entities_func_def Let_def split: sum.splits)
qed

lemma get_entity_func_snapshots:
  "heap (snd (get_entity_func rt entity_id c s)) = heap s
   \<and> cache_holder (snd (get_entity_func rt entity_id c s)) = cache_holder s"
proof (cases "extract_bearer_token c")
  case (Inl e)
  then show ?thesis by (simp add: get_entity_func_def Let_def split: option.splits)
next
  case (Inr token)
  obtain r s1 where g: "get_entitlements rt token s = (r, s1)"
    by (cases "get_entitlements rt token s")
  with Inr get_entitlements_frame(1,2) [OF g] show ?thesis
    by (simp add: get_entity_func_def Let_def split: sum.splits option.splits)
qed

lemma refresh_cache_func_snapshots:
  "heap (snd (refresh_cache_func rt now c s)) = heap s
     \<and> cache_holder (snd (refresh_cache_func rt now c s)) = cache_holder s
   \<or> (\<exists>raw. entities_response rt (downstream_requests s) = Inr raw
        \<and> heap (snd (refresh_cache_func rt now c s))
            = heap s @ [\<lparr>entities = foldl (\<lambda>d entity. AList.update (id_field entity) entity d) [] raw,
                          last_refreshed_at = now, ttl_seconds = cache_ttl_seconds rt\<rparr>]
        \<and> cache_holder (snd (refresh_cache_func rt now c s)) = length (heap s))"
  by (simp add: refresh_cache_func_def build_cache_eq Let_def split: sum.splits)

lemma refresh_iteration_snapshots:
  "heap (snd (refresh_iteration rt ttl now s)) = heap s
     \<and> cache_holder (snd (refresh_iteration rt ttl now s)) = cache_holder s
   \<or> (\<exists>raw. entities_response rt (downstream_requests s) = Inr raw
        \<and> heap (snd (refresh_iteration rt ttl now s))
            = heap s @ [\<lparr>entities = foldl (\<lambda>d entity. AList.update (id_field entity) entity d) [] raw,
                          last_refreshed_at = now, ttl_seconds = ttl\<rparr>]
        \<and> cache_holder (snd (refresh_iteration rt ttl now s)) = length (heap s))"
  by (simp add: refresh_iteration_eq split: sum.splits)

lemma perform_snapshots:
  "heap (perform rt (now, op) s) = heap s
     \<and> cache_holder (perform rt (now, op) s) = cache_holder s
   \<or> (\<exists>raw. op \<in> range RefreshCache \<union> {RefreshTick}
        \<and> entities_response rt (downstream_requests s) = Inr raw
        \<and> heap (perform rt (now, op) s)
            = heap s @ [\<lparr>entities = foldl (\<lambda>d entity. AList.update (id_field entity) entity d) [] raw,
                          last_refreshed_at = now, ttl_seconds = cache_ttl_seconds rt\<rparr>]
        \<and> cache_holder (perform rt (now, op) s) = length (heap s))"
proof (cases op)
  case (ListEntities cat ctx)
  show ?thesis
  proof (cases rule: requires_role_snapshots
      [of rt "[''reader'', ''admin'']" "list_entities_func rt now cat" ctx s])
    case denied
    with ListEntities show ?thesis by (simp add: list_entities_def)
  next
    case (ran c s1)
    with ListEntities list_entities_func_snapshots [of rt now cat c s1] show ?thesis
      by (simp add: list_entities_def)
  qed
next
  case (GetEntity entity_id ctx)
  show ?thesis
  proof (cases rule: requires_role_snapshots
      [of rt "[''reader'', ''admin'']" "get_entity_func rt entity_id" ctx s])
    case denied
    with GetEntity show ?thesis by (simp add: get_entity_def)
  next
    case (ran c s1)
    with GetEntity get_entity_func_snapshots [of rt entity_id c s1] show ?thesis
      by (simp add: get_entity_def)
  qed
next
  case (RefreshCache ctx)
  show ?thesis
  proof (cases rule: requires_role_snapshots
      [of rt "[''admin'']" "refresh_cache_func rt now" ctx s])
    case denied
    with RefreshCache show ?thesis by (simp add: refresh_cache_def)
  next
    case (ran c s1)
    with RefreshCache refresh_cache_func_snapshots [of rt now c s1] show ?thesis
      by (auto simp add: refresh_cache_def)
  qed
next
  case CacheSummary
  then show ?thesis by simp
next
  case CacheHealth
  then show ?thesis by simp
next
  case RefreshTick
  with refresh_iteration_snapshots [of rt "cache_ttl_seconds rt" now s] show ?thesis
    by auto
qed

lemma perform_heap_grows: "\<exists>new. heap (perform rt op s) = heap s @ new"
proof -
  obtain now oper where "op = (now, oper)" by (cases op)
  with perform_snapshots [of rt now oper s] show ?thesis by auto
qed

lemma run_heap_grows: "\<exists>new. heap (run rt ops s) = heap s @ new"
proof (induction ops arbitrary: s)
  case Nil
  show ?case by simp
next
  case (Cons op ops)
  from perform_heap_grows [of rt op s]
  obtain new1 where "heap (perform rt op s) = heap s @ new1" by blast
  moreover from Cons.IH [of "perform rt op s"]
  obtain new2 where "heap (run rt ops (perform rt op s)) = heap (perform rt op s) @ new2"
    by blast
  ultimately show ?case by simp
qed

text \<open>
  In the state in which the server starts to serve, and after any operations, the holder
  refers to a constructed snapshot, so that \<open>current\<close> reads an object of the heap.
\<close>

lemma app_lifespan_holder:
  "app_lifespan rt now = Inr s \<Longrightarrow> cache_holder s < length (heap s)"
  by (auto simp add: app_lifespan_def build_cache_eq process_start_def Let_def
      split: if_splits sum.splits)

lemma perform_holder:
  assumes "cache_holder s < length (heap s)"
  shows "cache_holder (perform rt op s) < length (heap (perform rt op s))"
proof -
  obtain now oper where "op = (now, oper)" by (cases op)
  with perform_snapshots [of rt now oper s] assms show ?thesis by auto
qed

lemma run_holder:
  "cache_holder s < length (heap s) \<Longrightarrow>
     cache_holder (run rt ops s) < length (heap (run rt ops s))"
  by (induction ops arbitrary: s) (simp_all add: perform_holder)

subsection \<open>The entitlement cache only grows\<close>

text \<open>An entry of the entitlement cache is never removed or replaced.\<close>

lemma get_entitlements_keeps:
  "entitlement_cache s h = Some p \<Longrightarrow>
     entitlement_cache (snd (get_entitlements rt token s)) h = Some p"
  by (auto simp add: get_entitlements_def verify_token_and_resolve_entitlements_def Let_def
      split: option.splits sum.splits)

lemma requires_role_keeps:
  assumes func: "\<And>c s. entitlement_cache s h = Some p \<Longrightarrow>
                   entitlement_cache (snd (func c s)) h = Some p"
    and "entitlement_cache s h = Some p"
  shows "entitlement_cache (snd (requires_role rt required func ctx s)) h = Some p"
proof (cases ctx)
  case None
  with assms(2) show ?thesis by (simp add: requires_role_def)
next
  case (Some c)
  show ?thesis
  proof (cases "extract_bearer_token c")
    case (Inl e)
    with Some assms(2) show ?thesis by (simp add: requires_role_def)
  next
    case (Inr token)
    obtain r s1 where g: "get_entitlements rt token s = (r, s1)"
      by (cases "get_entitlements rt token s")
    with get_entitlements_keeps [OF assms(2), of rt token]
    have k: "entitlement_cache s1 h = Some p" by simp
    with Some Inr g func [of s1 c] show ?thesis
      by (simp add: requires_role_def split: sum.splits)
  qed
qed

lemma list_entities_func_keeps:
  assumes "entitlement_cache s h = Some p"
  shows "entitlement_cache (snd (list_entities_func rt now cat c s)) h = Some p"
proof (cases "extract_bearer_token c")
  case (Inl e)
  with assms show ?thesis by (simp add: list_entities_func_def)
next
  case (Inr token)
  obtain r s1 where g: "get_entitlements rt token s = (r, s1)"
    by (cases "get_entitlements rt token s")
  with get_entitlements_keeps [OF assms, of rt token]
  have "entitlement_cache s1 h = Some p" by simp
  with Inr g show ?thesis
    by (simp add: list_entities_func_def Let_def split: sum.splits)
qed

lemma get_entity_func_keeps:
  assumes "entitlement_cache s h = Some p"
  shows "entitlement_cache (snd (get_entity_func rt entity_id c s)) h = Some p"
proof (cases "extract_bearer_token c")
  case (Inl e)
  with assms show ?thesis by (simp add: get_entity_func_def Let_def split: option.splits)
next
  case (Inr token)
  obtain r s1 where g: "get_entitlements rt token s = (r, s1)"
    by (cases "get_entitlements rt token s")
  with get_entitlements_keeps [OF assms, of rt token]
  have "entitlement_cache s1 h = Some p" by simp
  with Inr g assms show ?thesis
    by (simp add: get_entity_func_def Let_def split: sum.splits option.splits)
qed

lemma refresh_cache_func_keeps:
  assumes "entitlement_cache s h = Some p"
  shows "entitlement_cache (snd (refresh_cache_func rt now c s)) h = Some p"
  using assms by (simp add: refresh_cache_func_def build_cache_eq Let_def split: sum.splits)

lemma perform_keeps:
  assumes "entitlement_cache s h = Some p"
  shows "entitlement_cache (perform rt op s) h = Some p"
proof -
  obtain now oper where op: "op = (now, oper)" by (cases op)
  show ?thesis
  proof (cases oper)
    case (ListEntities cat ctx)
    with assms op show ?thesis
      by (simp add: list_entities_def requires_role_keeps list_entities_func_keeps)
  next
    case (GetEntity entity_id ctx)
    with assms op show ?thesis
      by (simp add: get_entity_def requires_role_keeps get_entity_func_keeps)
  next
    case (RefreshCache ctx)
    with assms op show ?thesis
      by (simp add: refresh_cache_def requires_role_keeps refresh_cache_func_keeps)
  next
    case CacheSummary
    with assms op show ?thesis by simp
  next
    case CacheHealth
    with assms op show ?thesis by simp
  next
    case RefreshTick
    with assms op show ?thesis by (simp add: refresh_iteration_eq split: sum.splits)
  qed
qed

lemma run_keeps:
  "entitlement_cache s h = Some p \<Longrightarrow> entitlement_cache (run rt ops s) h = Some p"
  by (induction ops arbitrary: s) (simp_all add: perform_keeps)

subsection \<open>The scenario, evaluated\<close>

lemma scenario_starts_serving: "app_lifespan scenario 0 = Inr serving"
  by (simp add: app_lifespan_def build_cache_eq scenario_def process_start_def serving_def
      downstream_requests_def Let_def e1_def e2_def)

lemma bearer_token: "extract_bearer_token (bearer token) = Inr token"
  by (simp add: extract_bearer_token_def bearer_def startswith_def lower_def lower_char_def)

lemma reader_resolved:
  "fst (get_entitlements scenario ''reader-token'' serving) = Inr reader"
  by (simp add: get_entitlements_def verify_token_and_resolve_entitlements_def Let_def
      scenario_def serving_def idp_requests_def reader_def)

lemma admin_resolved:
  "fst (get_entitlements scenario ''admin-token'' serving) = Inr admin"
  by (simp add: get_entitlements_def verify_token_and_resolve_entitlements_def Let_def
      scenario_def serving_def idp_requests_def admin_def insert_commute)

lemma outage_tick: "snd (refresh_iteration scenario 300 300000000 serving) = after_outage"
  by (simp add: refresh_iteration_eq scenario_def serving_def after_outage_def
      downstream_requests_def)

section \<open>Layer 4: filtering by permitted categories\<close>

text \<open>
  Claim C1. For a caller whose token resolves to the entitlements \<open>ents\<close> and who passes the
  role gate, the entities that \<open>list_entities\<close> selects are those of the current snapshot
  whose category is in \<open>permitted_categories\<close> (and equals the category asked for, if one
  is), and the text returned consists of one line for each selected entity and for no
  other, followed by the staleness warning if the snapshot is stale, or is the
  no-entities text if none is selected: every listed entity has a permitted category,
  and an entity of the snapshot with another category is left out without an error. For
  the same caller, \<open>get_entity\<close> on an entity of the snapshot returns the body of the
  entity if its category is permitted, and otherwise the access-denied text that names
  the category, which is not the body.
\<close>

theorem layer4_data_filtering:
  assumes "extract_bearer_token ctx = Inr token"
    and "get_entitlements rt token s = (Inr ents, s1)"
    and "global_roles ents \<inter> {''reader'', ''admin''} \<noteq> {}"
  shows "entitled_entities (current s) ents cat
           = filter (\<lambda>e. category e \<in> permitted_categories ents
                           \<and> (cat = None \<or> cat = Some (category e)))
               (map snd (entities (current s)))
         \<and> list_entities rt now cat (Some ctx) s =
             (Inr (case entitled_entities (current s) ents cat of
                     [] \<Rightarrow> ''No entities found matching your entitlements and filter.''
                   | e # es \<Rightarrow>
                       ''- '' @ name e @ '' (id='' @ id_field e
                         @ '', category='' @ category e @ '')''
                       @ concat (map (\<lambda>e. newline @ ''- '' @ name e @ '' (id='' @ id_field e
                                               @ '', category='' @ category e @ '')'') es)
                       @ (if is_stale (current s) now
                          then newline @ newline @ ''[Warning: cached data may be stale]''
                          else [])), s1)
         \<and> (\<forall>e \<in> set (entitled_entities (current s) ents cat).
               category e \<in> permitted_categories ents
               \<and> e \<in> snd ` set (entities (current s)))
         \<and> (\<forall>e \<in> snd ` set (entities (current s)).
               category e \<notin> permitted_categories ents \<longrightarrow>
               e \<notin> set (entitled_entities (current s) ents cat))
         \<and> (map_of (entities (current s)) entity_id = Some entity
               \<and> category entity \<notin> permitted_categories ents \<longrightarrow>
             get_entity rt entity_id (Some ctx) s
               = (Inr (''Access denied: you do not have entitlements for category ''
                         @ apostrophe @ category entity @ apostrophe @ ''.''), s1)
             \<and> ''Access denied: you do not have entitlements for category ''
                   @ apostrophe @ category entity @ apostrophe @ ''.''
                 \<noteq> ''Name: '' @ name entity @ newline @ ''ID: '' @ id_field entity @ newline
                     @ ''Category: '' @ category entity @ newline
                     @ ''Metadata: '' @ repr_dict rt (metadata entity))
         \<and> (map_of (entities (current s)) entity_id = Some entity
               \<and> category entity \<in> permitted_categories ents \<longrightarrow>
             get_entity rt entity_id (Some ctx) s
               = (Inr (''Name: '' @ name entity @ newline @ ''ID: '' @ id_field entity @ newline
                         @ ''Category: '' @ category entity @ newline
                         @ ''Metadata: '' @ repr_dict rt (metadata entity)), s1))"
proof (intro conjI)
  show "entitled_entities (current s) ents cat
          = filter (\<lambda>e. category e \<in> permitted_categories ents
                          \<and> (cat = None \<or> cat = Some (category e)))
              (map snd (entities (current s)))"
    by (auto simp add: entitled_entities_def intro: filter_cong)
  show "list_entities rt now cat (Some ctx) s =
          (Inr (case entitled_entities (current s) ents cat of
                  [] \<Rightarrow> ''No entities found matching your entitlements and filter.''
                | e # es \<Rightarrow>
                    ''- '' @ name e @ '' (id='' @ id_field e
                      @ '', category='' @ category e @ '')''
                    @ concat (map (\<lambda>e. newline @ ''- '' @ name e @ '' (id='' @ id_field e
                                            @ '', category='' @ category e @ '')'') es)
                    @ (if is_stale (current s) now
                       then newline @ newline @ ''[Warning: cached data may be stale]''
                       else [])), s1)"
    by (simp add: list_entities_authorized [OF assms] render_entities_eq entity_line_def
        split: list.splits)
  show "\<forall>e \<in> set (entitled_entities (current s) ents cat).
          category e \<in> permitted_categories ents \<and> e \<in> snd ` set (entities (current s))"
    by (auto simp add: entitled_entities_def)
  show "\<forall>e \<in> snd ` set (entities (current s)).
          category e \<notin> permitted_categories ents \<longrightarrow>
          e \<notin> set (entitled_entities (current s) ents cat)"
    by (auto simp add: entitled_entities_def)
  show "map_of (entities (current s)) entity_id = Some entity
          \<and> category entity \<notin> permitted_categories ents \<longrightarrow>
        get_entity rt entity_id (Some ctx) s
          = (Inr (''Access denied: you do not have entitlements for category ''
                    @ apostrophe @ category entity @ apostrophe @ ''.''), s1)
        \<and> ''Access denied: you do not have entitlements for category ''
              @ apostrophe @ category entity @ apostrophe @ ''.''
            \<noteq> ''Name: '' @ name entity @ newline @ ''ID: '' @ id_field entity @ newline
                @ ''Category: '' @ category entity @ newline
                @ ''Metadata: '' @ repr_dict rt (metadata entity)"
    using get_entity_authorized [OF assms, of entity_id]
    by (simp add: access_denied_def)
  show "map_of (entities (current s)) entity_id = Some entity
          \<and> category entity \<in> permitted_categories ents \<longrightarrow>
        get_entity rt entity_id (Some ctx) s
          = (Inr (''Name: '' @ name entity @ newline @ ''ID: '' @ id_field entity @ newline
                    @ ''Category: '' @ category entity @ newline
                    @ ''Metadata: '' @ repr_dict rt (metadata entity)), s1)"
    using get_entity_authorized [OF assms, of entity_id]
    by (simp add: entity_body_def)
qed

theorem layer4_data_filtering_witness:
  "extract_bearer_token (bearer ''reader-token'') = Inr ''reader-token''
   \<and> fst (get_entitlements scenario ''reader-token'' serving) = Inr reader
   \<and> global_roles reader \<inter> {''reader'', ''admin''} \<noteq> {}
   \<and> fst (list_entities scenario 5 None (Some (bearer ''reader-token'')) serving)
       = Inr ''- Pump (id=e1, category=ops)''
   \<and> fst (list_entities scenario 301000000 None (Some (bearer ''reader-token'')) serving)
       = Inr (''- Pump (id=e1, category=ops)'' @ newline @ newline
                @ ''[Warning: cached data may be stale]'')
   \<and> fst (list_entities scenario 5 (Some ''finance'') (Some (bearer ''reader-token'')) serving)
       = Inr ''No entities found matching your entitlements and filter.''
   \<and> e1 \<in> set (entitled_entities (current serving) reader None)
   \<and> category e1 \<in> permitted_categories reader
   \<and> e2 \<in> snd ` set (entities (current serving))
   \<and> category e2 \<notin> permitted_categories reader
   \<and> e2 \<notin> set (entitled_entities (current serving) reader None)
   \<and> map_of (entities (current serving)) ''e2'' = Some e2
   \<and> fst (get_entity scenario ''e2'' (Some (bearer ''reader-token'')) serving)
       = Inr (''Access denied: you do not have entitlements for category ''
                @ apostrophe @ ''finance'' @ apostrophe @ ''.'')
   \<and> map_of (entities (current serving)) ''e1'' = Some e1
   \<and> fst (get_entity scenario ''e1'' (Some (bearer ''reader-token'')) serving)
       = Inr (''Name: Pump'' @ newline @ ''ID: e1'' @ newline @ ''Category: ops'' @ newline
                @ ''Metadata: {}'')"
proof -
  let ?s1 = "snd (get_entitlements scenario ''reader-token'' serving)"
  have g: "get_entitlements scenario ''reader-token'' serving = (Inr reader, ?s1)"
    using reader_resolved by (metis prod.collapse)
  have r: "global_roles reader \<inter> {''reader'', ''admin''} \<noteq> {}"
    by (simp add: reader_def)
  note th = layer4_data_filtering [OF bearer_token g r]
  have cur: "current serving
               = \<lparr>entities = [(''e1'', e1), (''e2'', e2)], last_refreshed_at = 0, ttl_seconds = 300\<rparr>"
    by (simp add: current_def serving_def)
  have fresh: "\<not> is_stale (current serving) 5"
    by (simp add: is_stale_bounded cur)
  have stale: "is_stale (current serving) 301000000"
    by (simp add: is_stale_bounded cur)
  have e: "name e1 = ''Pump''" "id_field e1 = ''e1''" "category e1 = ''ops''" "metadata e1 = []"
    "category e2 = ''finance''"
    by (simp_all add: e1_def e2_def)
  have p: "permitted_categories reader = {''ops''}" by (simp add: reader_def)
  from th [of None] have listed: "entitled_entities (current serving) reader None = [e1]"
    by (simp add: cur e p)
  from th [of "Some ''finance''"]
  have none: "entitled_entities (current serving) reader (Some ''finance'') = []"
    by (simp add: cur e p)
  from th [of None 5] have l1:
    "fst (list_entities scenario 5 None (Some (bearer ''reader-token'')) serving)
       = Inr ''- Pump (id=e1, category=ops)''"
    by (simp add: listed fresh e)
  from th [of None 301000000] have l2:
    "fst (list_entities scenario 301000000 None (Some (bearer ''reader-token'')) serving)
       = Inr (''- Pump (id=e1, category=ops)'' @ newline @ newline
                @ ''[Warning: cached data may be stale]'')"
    by (simp add: listed stale e)
  from th [of "Some ''finance''" 5] have l3:
    "fst (list_entities scenario 5 (Some ''finance'') (Some (bearer ''reader-token'')) serving)
       = Inr ''No entities found matching your entitlements and filter.''"
    by (simp add: none)
  have c2: "category e2 \<notin> permitted_categories reader" by (simp add: e p)
  have c1: "category e1 \<in> permitted_categories reader" by (simp add: e p)
  have m2: "map_of (entities (current serving)) ''e2'' = Some e2" by (simp add: cur)
  have m1: "map_of (entities (current serving)) ''e1'' = Some e1" by (simp add: cur)
  have in2: "e2 \<in> snd ` set (entities (current serving))" by (simp add: cur)
  from th [of None] in2 c2
  have n2: "e2 \<notin> set (entitled_entities (current serving) reader None)"
    by blast
  from th [of None 5 "''e2''" e2] m2 c2
  have d: "fst (get_entity scenario ''e2'' (Some (bearer ''reader-token'')) serving)
       = Inr (''Access denied: you do not have entitlements for category ''
                @ apostrophe @ ''finance'' @ apostrophe @ ''.'')"
    by (simp add: e)
  from th [of None 5 "''e1''" e1] m1 c1
  have b: "fst (get_entity scenario ''e1'' (Some (bearer ''reader-token'')) serving)
       = Inr (''Name: Pump'' @ newline @ ''ID: e1'' @ newline @ ''Category: ops'' @ newline
                @ ''Metadata: {}'')"
    by (simp add: e scenario_def)
  from bearer_token reader_resolved r l1 l2 l3 listed c1 in2 c2 n2 m2 d m1 b show ?thesis
    by simp
qed

section \<open>Layer 3: the role gate\<close>

text \<open>
  Claim C2. For a caller whose token is extracted and resolved to entitlements, the
  decorated handler runs (on the state left by the resolution) if and only if the caller's
  roles and the required roles have a common element; otherwise the call ends with a
  \<open>PermissionError\<close> whose message names the required roles and the caller's roles, and the
  handler does not run.
\<close>

theorem role_gate:
  assumes "extract_bearer_token ctx = Inr token"
    and "get_entitlements rt token s = (Inr ents, s1)"
  shows "requires_role rt required func (Some ctx) s =
           (if global_roles ents \<inter> set required \<noteq> {} then func ctx s1
            else (Inl (PermissionError
                         (''Insufficient permissions. Required one of: ''
                            @ repr_tuple rt required @ '', user has: ''
                            @ repr_set rt (global_roles ents))), s1))"
  using assms by (simp add: requires_role_def insufficient_permissions_def)

theorem role_gate_witness:
  "extract_bearer_token (bearer ''reader-token'') = Inr ''reader-token''
   \<and> fst (get_entitlements scenario ''reader-token'' process_start)
       = Inr \<lparr>user_id = ''u1'', global_roles = {''reader''}, permitted_categories = {''ops''}\<rparr>
   \<and> fst (requires_role scenario [''reader'', ''admin''] (\<lambda>c s. (Inr ''handler ran'', s))
            (Some (bearer ''reader-token'')) process_start) = Inr ''handler ran''
   \<and> extract_bearer_token (bearer ''guest-token'') = Inr ''guest-token''
   \<and> fst (get_entitlements scenario ''guest-token'' process_start)
       = Inr \<lparr>user_id = ''u3'', global_roles = {}, permitted_categories = {}\<rparr>
   \<and> fst (requires_role scenario [''reader'', ''admin''] (\<lambda>c s. (Inr ''handler ran'', s))
            (Some (bearer ''guest-token'')) process_start)
       = Inl (PermissionError (''Insufficient permissions. Required one of: ''
                @ repr_tuple scenario [''reader'', ''admin''] @ '', user has: ''
                @ repr_set scenario {}))"
proof -
  let ?reader = "\<lparr>user_id = ''u1'', global_roles = {''reader''}, permitted_categories = {''ops''}\<rparr>"
  let ?guest = "\<lparr>user_id = ''u3'', global_roles = {}, permitted_categories = {}\<rparr> :: UserEntitlements"
  have x1: "extract_bearer_token (bearer ''reader-token'') = Inr ''reader-token''"
    by (simp add: extract_bearer_token_def bearer_def startswith_def lower_def lower_char_def)
  have x2: "extract_bearer_token (bearer ''guest-token'') = Inr ''guest-token''"
    by (simp add: extract_bearer_token_def bearer_def startswith_def lower_def lower_char_def)
  have f1: "fst (get_entitlements scenario ''reader-token'' process_start) = Inr ?reader"
    by (simp add: get_entitlements_def verify_token_and_resolve_entitlements_def Let_def
        scenario_def process_start_def idp_requests_def)
  have f2: "fst (get_entitlements scenario ''guest-token'' process_start) = Inr ?guest"
    by (simp add: get_entitlements_def verify_token_and_resolve_entitlements_def Let_def
        scenario_def process_start_def idp_requests_def)
  from f1 have g1: "get_entitlements scenario ''reader-token'' process_start
      = (Inr ?reader, snd (get_entitlements scenario ''reader-token'' process_start))"
    by (metis prod.collapse)
  from f2 have g2: "get_entitlements scenario ''guest-token'' process_start
      = (Inr ?guest, snd (get_entitlements scenario ''guest-token'' process_start))"
    by (metis prod.collapse)
  have r1: "fst (requires_role scenario [''reader'', ''admin''] (\<lambda>c s. (Inr ''handler ran'', s))
            (Some (bearer ''reader-token'')) process_start) = Inr ''handler ran''"
    by (simp add: role_gate [OF x1 g1])
  have r2: "fst (requires_role scenario [''reader'', ''admin''] (\<lambda>c s. (Inr ''handler ran'', s))
            (Some (bearer ''guest-token'')) process_start)
       = Inl (PermissionError (''Insufficient permissions. Required one of: ''
                @ repr_tuple scenario [''reader'', ''admin''] @ '', user has: ''
                @ repr_set scenario {}))"
    by (simp add: role_gate [OF x2 g2])
  from x1 x2 f1 f2 r1 r2 show ?thesis by blast
qed

section \<open>Resolving the same token twice\<close>

text \<open>
  Claim C3, as stated, fails for a token that the identity provider rejects: nothing is
  cached for it, so each of two calls asks the provider, and neither returns a profile.
\<close>

theorem resolve_twice_counterexample:
  "fst (get_entitlements scenario ''bad-token'' process_start) = Inl (HTTPStatusError 401)
   \<and> fst (get_entitlements scenario ''bad-token''
            (snd (get_entitlements scenario ''bad-token'' process_start)))
       = Inl (HTTPStatusError 401)
   \<and> idp_requests (snd (get_entitlements scenario ''bad-token''
                      (snd (get_entitlements scenario ''bad-token'' process_start)))) = 2"
  by (simp add: get_entitlements_def verify_token_and_resolve_entitlements_def Let_def
      scenario_def process_start_def idp_requests_def)

text \<open>
  Claim C3, amended. When a call of \<open>get_entitlements\<close> returns a profile, a second call
  with the same token returns the same profile and leaves the state as it is: it sends
  no request. The first call has sent at most one request to the identity provider, so
  the two calls together send at most one. The second call is served from the cache
  also when other operations of the server have run in between.
\<close>

theorem resolve_twice_after_success:
  assumes "get_entitlements rt token s = (Inr p, s1)"
  shows "get_entitlements rt token s1 = (Inr p, s1)
         \<and> idp_requests (snd (get_entitlements rt token s1)) \<le> idp_requests s + 1
         \<and> get_entitlements rt token (run rt ops s1) = (Inr p, run rt ops s1)"
proof -
  from assms have cached: "entitlement_cache s1 (sha256_hexdigest rt token) = Some p"
    by (rule get_entitlements_cached)
  then have again: "get_entitlements rt token s1 = (Inr p, s1)"
    by (rule get_entitlements_hit)
  from get_entitlements_frame(5) [OF assms]
  have "idp_requests s1 \<le> idp_requests s + 1"
    by (auto simp add: idp_requests_def)
  moreover from cached have "get_entitlements rt token (run rt ops s1) = (Inr p, run rt ops s1)"
    by (intro get_entitlements_hit run_keeps)
  ultimately show ?thesis using again by simp
qed

theorem resolve_twice_after_success_witness:
  "fst (get_entitlements scenario ''reader-token'' process_start)
     = Inr \<lparr>user_id = ''u1'', global_roles = {''reader''}, permitted_categories = {''ops''}\<rparr>
   \<and> fst (get_entitlements scenario ''reader-token''
            (snd (get_entitlements scenario ''reader-token'' process_start)))
       = Inr \<lparr>user_id = ''u1'', global_roles = {''reader''}, permitted_categories = {''ops''}\<rparr>
   \<and> idp_requests (snd (get_entitlements scenario ''reader-token''
                      (snd (get_entitlements scenario ''reader-token'' process_start)))) = 1"
proof -
  let ?p = "\<lparr>user_id = ''u1'', global_roles = {''reader''}, permitted_categories = {''ops''}\<rparr>"
  let ?s1 = "snd (get_entitlements scenario ''reader-token'' process_start)"
  have f: "fst (get_entitlements scenario ''reader-token'' process_start) = Inr ?p"
    by (simp add: get_entitlements_def verify_token_and_resolve_entitlements_def Let_def
        scenario_def process_start_def idp_requests_def)
  then have h: "get_entitlements scenario ''reader-token'' process_start = (Inr ?p, ?s1)"
    by (metis prod.collapse)
  have n: "idp_requests ?s1 = 1"
    by (simp add: get_entitlements_def verify_token_and_resolve_entitlements_def Let_def
        scenario_def process_start_def idp_requests_def)
  from resolve_twice_after_success [OF h] f n show ?thesis by simp
qed

section \<open>No negative caching\<close>

text \<open>
  Claim C4. When the identity provider fails for the token, \<open>get_entitlements\<close> leaves the
  entitlement cache as it was; and when the hash of the token is not cached, which is
  when the provider is asked, the call ends with the provider's error and the hash is
  still not cached.
\<close>

theorem failed_verification_is_not_cached:
  assumes "userinfo_response rt (idp_requests s) token = Inl e"
  shows "entitlement_cache (snd (get_entitlements rt token s)) = entitlement_cache s
         \<and> (entitlement_cache s (sha256_hexdigest rt token) = None \<longrightarrow>
              fst (get_entitlements rt token s) = Inl e
              \<and> entitlement_cache (snd (get_entitlements rt token s))
                   (sha256_hexdigest rt token) = None)"
proof (cases "entitlement_cache s (sha256_hexdigest rt token)")
  case None
  with assms have "get_entitlements rt token s
                     = (Inl e, s\<lparr>effects := effects s @ [GetUserinfo token]\<rparr>)"
    by (simp add: get_entitlements_def verify_failure)
  with None show ?thesis by simp
next
  case (Some p)
  then show ?thesis by (simp add: get_entitlements_hit)
qed

theorem failed_verification_is_not_cached_witness:
  "userinfo_response scenario (idp_requests process_start) ''bad-token'' = Inl (HTTPStatusError 401)
   \<and> entitlement_cache process_start (sha256_hexdigest scenario ''bad-token'') = None
   \<and> fst (get_entitlements scenario ''bad-token'' process_start) = Inl (HTTPStatusError 401)
   \<and> entitlement_cache (snd (get_entitlements scenario ''bad-token'' process_start))
        = entitlement_cache process_start"
proof -
  have h: "userinfo_response scenario (idp_requests process_start) ''bad-token''
             = Inl (HTTPStatusError 401)"
    by (simp add: scenario_def)
  have m: "entitlement_cache process_start (sha256_hexdigest scenario ''bad-token'') = None"
    by (simp add: process_start_def)
  from failed_verification_is_not_cached [OF h] h m show ?thesis by simp
qed

section \<open>Manual refresh\<close>

text \<open>
  Claim C5. When \<open>refresh_cache\<close> is called by a caller whose token resolves to entitlements
  with the role \<open>admin\<close>, on a server with a downstream client: if the downstream request
  fails, the call ends with that error, and the reference in the holder and every
  snapshot are as before; if it succeeds, the holder refers to a newly constructed
  snapshot (the entities of the reply, the clock reading, the configured ttl), the old
  snapshots are as before, and the text returned states the number of entities of the new
  snapshot.
\<close>

theorem manual_refresh:
  assumes "extract_bearer_token ctx = Inr token"
    and "get_entitlements rt token s = (Inr ents, s1)"
    and "''admin'' \<in> global_roles ents"
    and "http_client s"
  shows "(entities_response rt (downstream_requests s) = Inl e \<longrightarrow>
            fst (refresh_cache rt now (Some ctx) s) = Inl e
            \<and> cache_holder (snd (refresh_cache rt now (Some ctx) s)) = cache_holder s
            \<and> heap (snd (refresh_cache rt now (Some ctx) s)) = heap s
            \<and> current (snd (refresh_cache rt now (Some ctx) s)) = current s)
         \<and> (entities_response rt (downstream_requests s) = Inr raw \<longrightarrow>
            fst (refresh_cache rt now (Some ctx) s)
              = Inr (''Cache refreshed. ''
                       @ str_nat (length (entities (current (snd (refresh_cache rt now (Some ctx) s)))))
                       @ '' entities loaded.'')
            \<and> cache_holder (snd (refresh_cache rt now (Some ctx) s)) = length (heap s)
            \<and> heap (snd (refresh_cache rt now (Some ctx) s))
                = heap s @ [current (snd (refresh_cache rt now (Some ctx) s))]
            \<and> current (snd (refresh_cache rt now (Some ctx) s))
                = \<lparr>entities = foldl (\<lambda>d entity. AList.update (id_field entity) entity d) [] raw,
                   last_refreshed_at = now, ttl_seconds = cache_ttl_seconds rt\<rparr>)"
proof -
  from assms(2) have fr: "heap s1 = heap s" "cache_holder s1 = cache_holder s"
    by (rule get_entitlements_frame, rule get_entitlements_frame)
  note eq = refresh_cache_authorized [OF assms, of now]
  show ?thesis
  proof (intro conjI impI)
    assume f: "entities_response rt (downstream_requests s) = Inl e"
    with eq have r: "refresh_cache rt now (Some ctx) s
                       = (Inl e, s1\<lparr>effects := effects s1 @ [GetEntities]\<rparr>)"
      by simp
    from r show "fst (refresh_cache rt now (Some ctx) s) = Inl e" by simp
    from r fr show "cache_holder (snd (refresh_cache rt now (Some ctx) s)) = cache_holder s"
      by simp
    from r fr show "heap (snd (refresh_cache rt now (Some ctx) s)) = heap s" by simp
    from r fr show "current (snd (refresh_cache rt now (Some ctx) s)) = current s"
      by (simp add: current_def)
  next
    assume ok: "entities_response rt (downstream_requests s) = Inr raw"
    let ?new = "\<lparr>entities = foldl (\<lambda>d entity. AList.update (id_field entity) entity d) [] raw,
                  last_refreshed_at = now, ttl_seconds = cache_ttl_seconds rt\<rparr>"
    from eq ok have st: "snd (refresh_cache rt now (Some ctx) s)
        = s1\<lparr>effects := effects s1 @ [GetEntities], heap := heap s @ [?new],
             cache_holder := length (heap s)\<rparr>"
      and res: "fst (refresh_cache rt now (Some ctx) s)
        = Inr (''Cache refreshed. '' @ str_nat (length (entities ?new)) @ '' entities loaded.'')"
      by simp_all
    from st show cur: "current (snd (refresh_cache rt now (Some ctx) s)) = ?new"
      by (simp add: current_def)
    from res cur show "fst (refresh_cache rt now (Some ctx) s)
              = Inr (''Cache refreshed. ''
                       @ str_nat (length (entities (current (snd (refresh_cache rt now (Some ctx) s)))))
                       @ '' entities loaded.'')"
      by simp
    from st show "cache_holder (snd (refresh_cache rt now (Some ctx) s)) = length (heap s)"
      by simp
    from st cur show "heap (snd (refresh_cache rt now (Some ctx) s))
                = heap s @ [current (snd (refresh_cache rt now (Some ctx) s))]"
      by simp
  qed
qed

theorem manual_refresh_witness:
  "extract_bearer_token (bearer ''admin-token'') = Inr ''admin-token''
   \<and> ''admin'' \<in> global_roles admin
   \<and> fst (get_entitlements scenario ''admin-token'' serving) = Inr admin
   \<and> http_client serving
   \<and> entities_response scenario (downstream_requests serving) = Inl (TransportError ''unreachable'')
   \<and> fst (refresh_cache scenario 7 (Some (bearer ''admin-token'')) serving)
       = Inl (TransportError ''unreachable'')
   \<and> cache_holder (snd (refresh_cache scenario 7 (Some (bearer ''admin-token'')) serving)) = 0
   \<and> heap (snd (refresh_cache scenario 7 (Some (bearer ''admin-token'')) serving)) = heap serving
   \<and> fst (get_entitlements scenario ''admin-token'' after_outage) = Inr admin
   \<and> http_client after_outage
   \<and> entities_response scenario (downstream_requests after_outage) = Inr [e1, e2, e3]
   \<and> fst (refresh_cache scenario 7 (Some (bearer ''admin-token'')) after_outage)
       = Inr ''Cache refreshed. 3 entities loaded.''
   \<and> cache_holder (snd (refresh_cache scenario 7 (Some (bearer ''admin-token'')) after_outage)) = 1"
proof -
  have a: "''admin'' \<in> global_roles admin" by (simp add: admin_def)
  have g: "get_entitlements scenario ''admin-token'' serving
             = (Inr admin, snd (get_entitlements scenario ''admin-token'' serving))"
    using admin_resolved by (metis prod.collapse)
  have c: "http_client serving" by (simp add: serving_def)
  have d: "entities_response scenario (downstream_requests serving)
             = Inl (TransportError ''unreachable'')"
    by (simp add: scenario_def serving_def downstream_requests_def)
  have f': "fst (get_entitlements scenario ''admin-token'' after_outage) = Inr admin"
    by (simp add: get_entitlements_def verify_token_and_resolve_entitlements_def Let_def
        scenario_def serving_def after_outage_def idp_requests_def admin_def insert_commute)
  then have g': "get_entitlements scenario ''admin-token'' after_outage
             = (Inr admin, snd (get_entitlements scenario ''admin-token'' after_outage))"
    by (metis prod.collapse)
  have c': "http_client after_outage" by (simp add: after_outage_def serving_def)
  have d': "entities_response scenario (downstream_requests after_outage) = Inr [e1, e2, e3]"
    by (simp add: scenario_def serving_def after_outage_def downstream_requests_def)
  have h: "cache_holder serving = 0" "length (heap after_outage) = 1"
    by (simp_all add: serving_def after_outage_def)
  have n: "length (foldl (\<lambda>d entity. AList.update (id_field entity) entity d) [] [e1, e2, e3]) = 3"
    by (simp add: e1_def e2_def e3_def)
  have three: "str_nat 3 = ''3''" by (simp add: str_nat.simps)
  note fail = manual_refresh [OF bearer_token g a c, of "TransportError ''unreachable''" 7]
  note succ = manual_refresh [OF bearer_token g' a c', of _ 7 "[e1, e2, e3]"]
  from fail d h have r1: "fst (refresh_cache scenario 7 (Some (bearer ''admin-token'')) serving)
       = Inl (TransportError ''unreachable'')"
    "cache_holder (snd (refresh_cache scenario 7 (Some (bearer ''admin-token'')) serving)) = 0"
    "heap (snd (refresh_cache scenario 7 (Some (bearer ''admin-token'')) serving)) = heap serving"
    by simp_all
  from succ d' h n three have r2:
    "fst (refresh_cache scenario 7 (Some (bearer ''admin-token'')) after_outage)
       = Inr ''Cache refreshed. 3 entities loaded.''"
    "cache_holder (snd (refresh_cache scenario 7 (Some (bearer ''admin-token'')) after_outage)) = 1"
    by simp_all
  from bearer_token a admin_resolved c d r1 f' c' d' r2 show ?thesis by simp
qed

section \<open>Scheduled refresh: serving stale data on error\<close>

text \<open>
  Claim C6. An iteration of the background refresh in which the downstream request fails
  ends normally (no exception leaves it); the reference in the holder, every snapshot
  and so the current snapshot are as before; the failure is logged with its exception;
  and the iteration has slept once and sent one downstream request, no second one. Any
  number of iterations of the loop end normally, and each of them sleeps before its one
  downstream request, so no request is sent before the next scheduled tick.
\<close>

theorem scheduled_refresh_serves_stale_on_error:
  assumes "entities_response rt (downstream_requests s) = Inl e"
  shows "fst (refresh_iteration rt ttl now s) = Inr ()
         \<and> cache_holder (snd (refresh_iteration rt ttl now s)) = cache_holder s
         \<and> heap (snd (refresh_iteration rt ttl now s)) = heap s
         \<and> current (snd (refresh_iteration rt ttl now s)) = current s
         \<and> log (snd (refresh_iteration rt ttl now s))
             = log s @ [Exception ''Cache refresh failed; serving stale data'' e]
         \<and> effects (snd (refresh_iteration rt ttl now s)) = effects s @ [Sleep ttl, GetEntities]
         \<and> fst (refresh_loop rt ttl ticks s) = Inr ()
         \<and> effects (snd (refresh_loop rt ttl ticks s))
             = effects s @ concat (map (\<lambda>now. [Sleep ttl, GetEntities]) ticks)"
  using assms
  by (simp add: refresh_iteration_eq current_def refresh_loop_returns refresh_loop_effects)

theorem scheduled_refresh_serves_stale_on_error_witness:
  "entities_response scenario (downstream_requests serving) = Inl (TransportError ''unreachable'')
   \<and> fst (refresh_iteration scenario 300 300000000 serving) = Inr ()
   \<and> cache_holder (snd (refresh_iteration scenario 300 300000000 serving)) = 0
   \<and> current (snd (refresh_iteration scenario 300 300000000 serving))
       = \<lparr>entities = [(''e1'', e1), (''e2'', e2)], last_refreshed_at = 0, ttl_seconds = 300\<rparr>
   \<and> log (snd (refresh_iteration scenario 300 300000000 serving))
       = [Exception ''Cache refresh failed; serving stale data'' (TransportError ''unreachable'')]
   \<and> effects (snd (refresh_iteration scenario 300 300000000 serving))
       = [GetEntities, Sleep 300, GetEntities]
   \<and> fst (refresh_loop scenario 300 [300000000, 600000000] serving) = Inr ()
   \<and> effects (snd (refresh_loop scenario 300 [300000000, 600000000] serving))
       = [GetEntities, Sleep 300, GetEntities, Sleep 300, GetEntities]"
proof -
  have d: "entities_response scenario (downstream_requests serving)
             = Inl (TransportError ''unreachable'')"
    by (simp add: scenario_def serving_def downstream_requests_def)
  have s: "cache_holder serving = 0" "log serving = []" "effects serving = [GetEntities]"
    "current serving
       = \<lparr>entities = [(''e1'', e1), (''e2'', e2)], last_refreshed_at = 0, ttl_seconds = 300\<rparr>"
    by (simp_all add: serving_def current_def)
  from scheduled_refresh_serves_stale_on_error
         [OF d, of 300 300000000 "[300000000, 600000000]"] d s
  show ?thesis by simp
qed

section \<open>Staleness\<close>

text \<open>
  Claim C7, as stated, fails for a snapshot that is very old: the elapsed seconds are a
  double, and beyond \<open>2^34\<close> seconds a double no longer resolves a microsecond. A
  snapshot stamped 0001-01-01 with a ttl of 63900000000 seconds, read one microsecond
  after the ttl has passed (on 2025-11-29), is not stale.
\<close>

theorem is_stale_counterexample:
  "0 \<le> ttl_seconds \<lparr>entities = [], last_refreshed_at = - 62135596800000000,
                        ttl_seconds = 63900000000\<rparr>
   \<and> ttl_seconds \<lparr>entities = [], last_refreshed_at = - 62135596800000000,
                      ttl_seconds = 63900000000\<rparr> * 1000000
       < 1764403200000001
           - last_refreshed_at \<lparr>entities = [], last_refreshed_at = - 62135596800000000,
                                  ttl_seconds = 63900000000\<rparr>
   \<and> \<not> is_stale \<lparr>entities = [], last_refreshed_at = - 62135596800000000,
                     ttl_seconds = 63900000000\<rparr> 1764403200000001"
proof -
  have "total_seconds 63900000000000001 = 63900000000" by code_simp
  then show ?thesis by (simp add: is_stale_def Let_def)
qed

text \<open>
  Claim C7, amended. For a clock reading \<open>t\<close> less than \<open>2^34\<close> seconds (about 544 years)
  before or after \<open>last_refreshed_at\<close>, a snapshot is stale at \<open>t\<close> exactly when the time
  elapsed since \<open>last_refreshed_at\<close> (in microseconds) is strictly greater than
  \<open>ttl_seconds\<close> seconds. A snapshot that \<open>build_cache\<close> has just constructed carries the
  clock reading of its construction and the given ttl, and with a ttl that is not
  negative it is not stale at that reading.
\<close>

theorem is_stale_iff_elapsed_exceeds_ttl:
  "(\<bar>t - last_refreshed_at c\<bar> < 2 ^ 34 * 1000000 \<longrightarrow>
      (is_stale c t \<longleftrightarrow> t - last_refreshed_at c > ttl_seconds c * 1000000))
   \<and> (build_cache rt now ttl s = (Inr a, s1) \<longrightarrow> 0 \<le> ttl \<longrightarrow>
        last_refreshed_at (heap s1 ! a) = now \<and> ttl_seconds (heap s1 ! a) = ttl
        \<and> \<not> is_stale (heap s1 ! a) now)"
proof (intro conjI impI)
  assume "\<bar>t - last_refreshed_at c\<bar> < 2 ^ 34 * 1000000"
  then show "is_stale c t \<longleftrightarrow> t - last_refreshed_at c > ttl_seconds c * 1000000"
    by (rule is_stale_bounded)
next
  assume b: "build_cache rt now ttl s = (Inr a, s1)" and ttl: "0 \<le> ttl"
  from b show stamp: "last_refreshed_at (heap s1 ! a) = now"
    by (auto simp add: build_cache_eq split: sum.splits)
  from b show lim: "ttl_seconds (heap s1 ! a) = ttl"
    by (auto simp add: build_cache_eq split: sum.splits)
  from ttl show "\<not> is_stale (heap s1 ! a) now"
    by (simp add: is_stale_def total_seconds_def Let_def stamp lim)
qed

theorem is_stale_iff_elapsed_exceeds_ttl_witness:
  "fst (build_cache scenario 5000000 300 process_start) = Inr 0
   \<and> (0::int) \<le> 300
   \<and> \<not> is_stale (heap (snd (build_cache scenario 5000000 300 process_start)) ! 0) 5000000
   \<and> \<bar>305000000 - last_refreshed_at
          (heap (snd (build_cache scenario 5000000 300 process_start)) ! 0)\<bar> < 2 ^ 34 * 1000000
   \<and> \<not> is_stale (heap (snd (build_cache scenario 5000000 300 process_start)) ! 0) 305000000
   \<and> \<bar>305000001 - last_refreshed_at
          (heap (snd (build_cache scenario 5000000 300 process_start)) ! 0)\<bar> < 2 ^ 34 * 1000000
   \<and> is_stale (heap (snd (build_cache scenario 5000000 300 process_start)) ! 0) 305000001"
proof -
  let ?c = "heap (snd (build_cache scenario 5000000 300 process_start)) ! 0"
  have f: "fst (build_cache scenario 5000000 300 process_start) = Inr 0"
    by (simp add: build_cache_eq scenario_def process_start_def downstream_requests_def)
  then have b: "build_cache scenario 5000000 300 process_start
             = (Inr 0, snd (build_cache scenario 5000000 300 process_start))"
    by (metis prod.collapse)
  have z: "(0::int) \<le> 300" by simp
  note th = is_stale_iff_elapsed_exceeds_ttl
    [of _ _ scenario 5000000 300 process_start 0 "snd (build_cache scenario 5000000 300 process_start)"]
  from th b z have stamp: "last_refreshed_at ?c = 5000000" "ttl_seconds ?c = 300"
    "\<not> is_stale ?c 5000000"
    by blast+
  have b1: "\<bar>305000000 - last_refreshed_at ?c\<bar> < 2 ^ 34 * 1000000"
    and b2: "\<bar>305000001 - last_refreshed_at ?c\<bar> < 2 ^ 34 * 1000000"
    by (simp_all add: stamp)
  from th [of 305000000 ?c] b1 stamp have n1: "\<not> is_stale ?c 305000000" by simp
  from th [of 305000001 ?c] b2 stamp have n2: "is_stale ?c 305000001" by simp
  from f z stamp b1 n1 b2 n2 show ?thesis by blast
qed

section \<open>The kinds of denial\<close>




section \<open>Snapshots are replaced, never changed\<close>

text \<open>
  Claim C9. Whatever operations the server performs, in any number and order, a snapshot
  that has been constructed keeps all its fields: the object at an address of the heap
  is the same afterwards. An operation leaves the holder and the heap as they are, or
  it is a manual or a scheduled refresh whose downstream request has succeeded, and then
  exactly one snapshot is constructed, from the entities of the reply, the clock reading
  and the configured ttl, and the holder refers to that new object, whose address is
  none of the old ones. A scheduled refresh whose downstream request succeeds does
  replace the reference in this way, and so does a manual refresh by a caller with the
  role \<open>admin\<close> on a server with a downstream client.
\<close>

theorem snapshots_are_replaced_wholesale:
  "(\<forall>a < length (heap s). heap (run rt ops s) ! a = heap s ! a)
   \<and> (heap (perform rt (now, op) s) = heap s
        \<and> cache_holder (perform rt (now, op) s) = cache_holder s
      \<or> (\<exists>raw. op \<in> range RefreshCache \<union> {RefreshTick}
           \<and> entities_response rt (downstream_requests s) = Inr raw
           \<and> heap (perform rt (now, op) s)
               = heap s @ [\<lparr>entities = foldl (\<lambda>d entity. AList.update (id_field entity) entity d) [] raw,
                             last_refreshed_at = now, ttl_seconds = cache_ttl_seconds rt\<rparr>]
           \<and> cache_holder (perform rt (now, op) s) = length (heap s)))
   \<and> (entities_response rt (downstream_requests s) = Inr raw \<longrightarrow>
        heap (perform rt (now, RefreshTick) s)
          = heap s @ [\<lparr>entities = foldl (\<lambda>d entity. AList.update (id_field entity) entity d) [] raw,
                        last_refreshed_at = now, ttl_seconds = cache_ttl_seconds rt\<rparr>]
        \<and> cache_holder (perform rt (now, RefreshTick) s) = length (heap s))
   \<and> (entities_response rt (downstream_requests s) = Inr raw
        \<and> extract_bearer_token ctx = Inr token
        \<and> get_entitlements rt token s = (Inr ents, s1)
        \<and> ''admin'' \<in> global_roles ents \<and> http_client s \<longrightarrow>
        heap (perform rt (now, RefreshCache (Some ctx)) s)
          = heap s @ [\<lparr>entities = foldl (\<lambda>d entity. AList.update (id_field entity) entity d) [] raw,
                        last_refreshed_at = now, ttl_seconds = cache_ttl_seconds rt\<rparr>]
        \<and> cache_holder (perform rt (now, RefreshCache (Some ctx)) s) = length (heap s))"
proof (intro conjI impI)
  from run_heap_grows [of rt ops s] obtain new where "heap (run rt ops s) = heap s @ new"
    by blast
  then show "\<forall>a < length (heap s). heap (run rt ops s) ! a = heap s ! a"
    by (simp add: nth_append)
next
  show "heap (perform rt (now, op) s) = heap s
        \<and> cache_holder (perform rt (now, op) s) = cache_holder s
      \<or> (\<exists>raw. op \<in> range RefreshCache \<union> {RefreshTick}
           \<and> entities_response rt (downstream_requests s) = Inr raw
           \<and> heap (perform rt (now, op) s)
               = heap s @ [\<lparr>entities = foldl (\<lambda>d entity. AList.update (id_field entity) entity d) [] raw,
                             last_refreshed_at = now, ttl_seconds = cache_ttl_seconds rt\<rparr>]
           \<and> cache_holder (perform rt (now, op) s) = length (heap s))"
    by (rule perform_snapshots)
next
  assume ok: "entities_response rt (downstream_requests s) = Inr raw"
  then show "heap (perform rt (now, RefreshTick) s)
          = heap s @ [\<lparr>entities = foldl (\<lambda>d entity. AList.update (id_field entity) entity d) [] raw,
                        last_refreshed_at = now, ttl_seconds = cache_ttl_seconds rt\<rparr>]"
    and "cache_holder (perform rt (now, RefreshTick) s) = length (heap s)"
    by (simp_all add: refresh_iteration_eq)
next
  assume h: "entities_response rt (downstream_requests s) = Inr raw
        \<and> extract_bearer_token ctx = Inr token
        \<and> get_entitlements rt token s = (Inr ents, s1)
        \<and> ''admin'' \<in> global_roles ents \<and> http_client s"
  then have eq: "refresh_cache rt now (Some ctx) s =
      (Inr (''Cache refreshed. '' @ str_nat (length
              (foldl (\<lambda>d entity. AList.update (id_field entity) entity d) [] raw))
              @ '' entities loaded.''),
       s1\<lparr>effects := effects s1 @ [GetEntities],
          heap := heap s @
            [\<lparr>entities = foldl (\<lambda>d entity. AList.update (id_field entity) entity d) [] raw,
              last_refreshed_at = now, ttl_seconds = cache_ttl_seconds rt\<rparr>],
          cache_holder := length (heap s)\<rparr>)"
    using refresh_cache_authorized [of ctx token rt s ents s1 now] by simp
  show "heap (perform rt (now, RefreshCache (Some ctx)) s)
          = heap s @ [\<lparr>entities = foldl (\<lambda>d entity. AList.update (id_field entity) entity d) [] raw,
                        last_refreshed_at = now, ttl_seconds = cache_ttl_seconds rt\<rparr>]"
    and "cache_holder (perform rt (now, RefreshCache (Some ctx)) s) = length (heap s)"
    by (simp_all add: eq)
qed

theorem snapshots_are_replaced_wholesale_witness:
  "(0::nat) < length (heap serving)
   \<and> heap (run scenario
              [(300000000, RefreshTick),
               (600000000, RefreshTick),
               (600000007, RefreshCache (Some (bearer ''admin-token''))),
               (600000009, ListEntities None (Some (bearer ''reader-token'')))] serving) ! 0
       = heap serving ! 0
   \<and> entities_response scenario (downstream_requests after_outage) = Inr [e1, e2, e3]
   \<and> heap (perform scenario (600000000, RefreshTick) after_outage)
       = heap serving @ [\<lparr>entities = [(''e1'', e1), (''e2'', e2), (''e3'', e3)],
                           last_refreshed_at = 600000000, ttl_seconds = 300\<rparr>]
   \<and> cache_holder (perform scenario (600000000, RefreshTick) after_outage) = 1
   \<and> extract_bearer_token (bearer ''admin-token'') = Inr ''admin-token''
   \<and> fst (get_entitlements scenario ''admin-token'' after_outage) = Inr admin
   \<and> ''admin'' \<in> global_roles admin
   \<and> http_client after_outage
   \<and> heap (perform scenario (300000007, RefreshCache (Some (bearer ''admin-token'')))
              after_outage)
       = heap serving @ [\<lparr>entities = [(''e1'', e1), (''e2'', e2), (''e3'', e3)],
                           last_refreshed_at = 300000007, ttl_seconds = 300\<rparr>]
   \<and> cache_holder (perform scenario (300000007, RefreshCache (Some (bearer ''admin-token'')))
                      after_outage) = 1"
proof -
  let ?ops = "[(300000000, RefreshTick),
               (600000000, RefreshTick),
               (600000007, RefreshCache (Some (bearer ''admin-token''))),
               (600000009, ListEntities None (Some (bearer ''reader-token'')))]"
  have l: "(0::nat) < length (heap serving)" by (simp add: serving_def)
  from snapshots_are_replaced_wholesale [of serving scenario ?ops] l
  have keep: "heap (run scenario ?ops serving) ! 0 = heap serving ! 0"
    by blast
  have a: "''admin'' \<in> global_roles admin" by (simp add: admin_def)
  have f': "fst (get_entitlements scenario ''admin-token'' after_outage) = Inr admin"
    by (simp add: get_entitlements_def verify_token_and_resolve_entitlements_def Let_def
        scenario_def serving_def after_outage_def idp_requests_def admin_def insert_commute)
  then have g': "get_entitlements scenario ''admin-token'' after_outage
             = (Inr admin, snd (get_entitlements scenario ''admin-token'' after_outage))"
    by (metis prod.collapse)
  have c': "http_client after_outage" by (simp add: after_outage_def serving_def)
  have d': "entities_response scenario (downstream_requests after_outage) = Inr [e1, e2, e3]"
    by (simp add: scenario_def serving_def after_outage_def downstream_requests_def)
  have h: "heap after_outage = heap serving" "length (heap serving) = 1"
    "cache_ttl_seconds scenario = 300"
    by (simp_all add: after_outage_def serving_def scenario_def)
  have n: "foldl (\<lambda>d entity. AList.update (id_field entity) entity d) [] [e1, e2, e3]
             = [(''e1'', e1), (''e2'', e2), (''e3'', e3)]"
    by (simp add: e1_def e2_def e3_def)
  from snapshots_are_replaced_wholesale
         [of after_outage scenario "[]" 600000000 _ "[e1, e2, e3]"] d' h n
  have tick: "heap (perform scenario (600000000, RefreshTick) after_outage)
       = heap serving @ [\<lparr>entities = [(''e1'', e1), (''e2'', e2), (''e3'', e3)],
                           last_refreshed_at = 600000000, ttl_seconds = 300\<rparr>]"
    "cache_holder (perform scenario (600000000, RefreshTick) after_outage) = 1"
    by simp_all
  from snapshots_are_replaced_wholesale
         [of after_outage scenario "[]" 300000007 _ "[e1, e2, e3]" "bearer ''admin-token''"
           "''admin-token''" admin "snd (get_entitlements scenario ''admin-token'' after_outage)"]
       d' bearer_token g' a c' h n
  have manual: "heap (perform scenario (300000007, RefreshCache (Some (bearer ''admin-token'')))
              after_outage)
       = heap serving @ [\<lparr>entities = [(''e1'', e1), (''e2'', e2), (''e3'', e3)],
                           last_refreshed_at = 300000007, ttl_seconds = 300\<rparr>]"
    "cache_holder (perform scenario (300000007, RefreshCache (Some (bearer ''admin-token'')))
                      after_outage) = 1"
    by simp_all
  from l keep d' tick bearer_token f' a c' manual show ?thesis by blast
qed

section \<open>What a denial of \<open>get_entity\<close> reveals\<close>

text \<open>
  Claim C10. \<open>get_entity\<close> looks the id up before it checks the category. A caller who
  passes the role gate and is not entitled to the category of an entity gets the
  access-denied text, which contains that category, when the id is in the snapshot, and
  the not-found text when the id is in no snapshot entry; the two texts differ, so the
  answer tells the caller that the entity exists and what its category is.
\<close>

theorem get_entity_reveals_existence:
  assumes "extract_bearer_token ctx = Inr token"
    and "get_entitlements rt token s = (Inr ents, s1)"
    and "get_entitlements rt token s' = (Inr ents, s1')"
    and "global_roles ents \<inter> {''reader'', ''admin''} \<noteq> {}"
    and "map_of (entities (current s)) entity_id = Some entity"
    and "category entity \<notin> permitted_categories ents"
    and "map_of (entities (current s')) entity_id = None"
  shows "fst (get_entity rt entity_id (Some ctx) s)
           = Inr (''Access denied: you do not have entitlements for category ''
                    @ apostrophe @ category entity @ apostrophe @ ''.'')
         \<and> fst (get_entity rt entity_id (Some ctx) s')
             = Inr (''Entity '' @ apostrophe @ entity_id @ apostrophe @ '' not found.'')
         \<and> fst (get_entity rt entity_id (Some ctx) s)
             \<noteq> fst (get_entity rt entity_id (Some ctx) s')"
  using get_entity_authorized [OF assms(1,2,4), of entity_id]
    get_entity_authorized [OF assms(1,3,4), of entity_id] assms(5-7)
  by (simp add: access_denied_def not_found_def)

theorem get_entity_reveals_existence_witness:
  "extract_bearer_token (bearer ''reader-token'') = Inr ''reader-token''
   \<and> fst (get_entitlements scenario ''reader-token'' serving) = Inr reader
   \<and> fst (get_entitlements scenario ''reader-token''
            (serving\<lparr>heap := [\<lparr>entities = [(''e1'', e1)], last_refreshed_at = 0,
                                 ttl_seconds = 300\<rparr>]\<rparr>)) = Inr reader
   \<and> global_roles reader \<inter> {''reader'', ''admin''} \<noteq> {}
   \<and> map_of (entities (current serving)) ''e2'' = Some e2
   \<and> category e2 \<notin> permitted_categories reader
   \<and> map_of (entities (current
         (serving\<lparr>heap := [\<lparr>entities = [(''e1'', e1)], last_refreshed_at = 0,
                              ttl_seconds = 300\<rparr>]\<rparr>))) ''e2'' = None
   \<and> fst (get_entity scenario ''e2'' (Some (bearer ''reader-token'')) serving)
       = Inr (''Access denied: you do not have entitlements for category ''
                @ apostrophe @ ''finance'' @ apostrophe @ ''.'')
   \<and> fst (get_entity scenario ''e2'' (Some (bearer ''reader-token''))
            (serving\<lparr>heap := [\<lparr>entities = [(''e1'', e1)], last_refreshed_at = 0,
                                 ttl_seconds = 300\<rparr>]\<rparr>))
       = Inr (''Entity '' @ apostrophe @ ''e2'' @ apostrophe @ '' not found.'')"
proof -
  let ?t = "serving\<lparr>heap := [\<lparr>entities = [(''e1'', e1)], last_refreshed_at = 0,
                                ttl_seconds = 300\<rparr>]\<rparr>"
  have f': "fst (get_entitlements scenario ''reader-token'' ?t) = Inr reader"
    by (simp add: get_entitlements_def verify_token_and_resolve_entitlements_def Let_def
        scenario_def serving_def idp_requests_def reader_def)
  have g: "get_entitlements scenario ''reader-token'' serving
             = (Inr reader, snd (get_entitlements scenario ''reader-token'' serving))"
    using reader_resolved by (metis prod.collapse)
  have g': "get_entitlements scenario ''reader-token'' ?t
             = (Inr reader, snd (get_entitlements scenario ''reader-token'' ?t))"
    using f' by (metis prod.collapse)
  have r: "global_roles reader \<inter> {''reader'', ''admin''} \<noteq> {}"
    by (simp add: reader_def)
  have m: "map_of (entities (current serving)) ''e2'' = Some e2"
    by (simp add: current_def serving_def)
  have c2: "category e2 \<notin> permitted_categories reader"
    by (simp add: e2_def reader_def)
  have m': "map_of (entities (current ?t)) ''e2'' = None"
    by (simp add: current_def serving_def)
  have cat: "category e2 = ''finance''" by (simp add: e2_def)
  from get_entity_reveals_existence [OF bearer_token g g' r m c2 m']
    bearer_token reader_resolved f' r m c2 m' cat
  show ?thesis by simp
qed

end
